theory Spec2Isabelle
  imports Main
begin

section \<open>Backend selection\<close>

text \<open>
  The module \<^verbatim>\<open>recsplain/similarity_helpers.py\<close> wraps four nearest-neighbour engines
  behind one set of method names. The four adapter classes are the values
  \<^verbatim>\<open>parse_server_name\<close> returns.
\<close>

datatype adapter_class = LazyHnsw | FaissIndexFactory | SciKitNearestNeighbors | RedisIndex

text \<open>
  \<^verbatim>\<open>available_engines\<close> is a module-level set of strings, filled while the module is
  imported: it starts as \<^verbatim>\<open>{"sklearn"}\<close> and gains \<^verbatim>\<open>"hnswlib"\<close>, \<^verbatim>\<open>"faiss"\<close> and
  \<^verbatim>\<open>"redis"\<close> when the respective import succeeds. The function reads it, so the model
  takes it as its first argument.
\<close>

definition parse_server_name :: "string set \<Rightarrow> string \<Rightarrow> adapter_class" where
  "parse_server_name available_engines sname =
     (if sname \<in> set [''hnswlib'', ''hnsw''] then
        (if ''hnswlib'' \<in> available_engines then LazyHnsw else SciKitNearestNeighbors)
      else if sname \<in> set [''faiss'', ''flatfaiss''] then
        (if ''faiss'' \<in> available_engines then FaissIndexFactory else SciKitNearestNeighbors)
      else if sname \<in> set [''redis''] then
        (if ''redis'' \<in> available_engines then RedisIndex else SciKitNearestNeighbors)
      else SciKitNearestNeighbors)"

text \<open>
  The specification speaks of case-insensitive aliases. \<^verbatim>\<open>lower\<close> follows the
  specification's words, not the source (which never changes the case of a name): it is
  Python's \<^verbatim>\<open>str.lower\<close> on ASCII text.
\<close>

definition lower_char :: "char \<Rightarrow> char" where
  "lower_char c =
     (case map_of (zip ''ABCDEFGHIJKLMNOPQRSTUVWXYZ'' ''abcdefghijklmnopqrstuvwxyz'') c of
        None \<Rightarrow> c
      | Some d \<Rightarrow> d)"

definition lower :: "string \<Rightarrow> string" where
  "lower s = map lower_char s"

section \<open>Errors, outcomes and Python helpers\<close>

text \<open>
  Every exception the adapters can raise is a value. A method that only reads returns
  \<open>error + 'r\<close>. A method that changes the object returns an \<open>outcome\<close>, which carries
  the object as it is when the call ends, whether it returned or raised: Python keeps
  the assignments made before an exception.
\<close>

datatype error =
  TypeError | ValueError | IndexError | RuntimeError | AssertionError | AttributeError
  | OverflowError | NotImplementedError | ModuleNotFoundError | ResponseError | PyException

datatype ('r, 's) outcome = Returns 'r 's | Raises error 's

fun state_of :: "('r, 's) outcome \<Rightarrow> 's" where
  "state_of (Returns r s) = s"
| "state_of (Raises e s) = s"

fun returned :: "('r, 's) outcome \<Rightarrow> bool" where
  "returned (Returns r s) = True"
| "returned (Raises e s) = False"

text \<open>\<^verbatim>\<open>xs.index(x)\<close>: the first position of \<open>x\<close>, \<^verbatim>\<open>ValueError\<close> when absent.\<close>

fun list_index :: "'a list \<Rightarrow> 'a \<Rightarrow> error + nat" where
  "list_index [] x = Inl ValueError"
| "list_index (y # ys) x =
     (if y = x then Inr 0
      else (case list_index ys x of Inl e \<Rightarrow> Inl e | Inr n \<Rightarrow> Inr (Suc n)))"

text \<open>\<^verbatim>\<open>xs[j]\<close> for a position \<open>j \<ge> 0\<close>: \<^verbatim>\<open>IndexError\<close> out of range.\<close>

definition getitem :: "'a list \<Rightarrow> nat \<Rightarrow> error + 'a" where
  "getitem xs j = (if j < length xs then Inr (xs ! j) else Inl IndexError)"

text \<open>\<^verbatim>\<open>str(id)\<close> of a Python integer: its decimal digits, with a sign when negative.\<close>

fun str_nat :: "nat \<Rightarrow> string" where
  "str_nat n =
     (if n < 10 then [''0123456789'' ! n]
      else str_nat (n div 10) @ [''0123456789'' ! (n mod 10)])"

declare str_nat.simps [simp del]

definition str_int :: "int \<Rightarrow> string" where
  "str_int i = (if i < 0 then ''-'' @ str_nat (nat (- i)) else str_nat (nat i))"

text \<open>
  Vectors are lists over an arbitrary component type \<open>'a\<close>, taken to be numbers; a batch
  \<^verbatim>\<open>data\<close> is a list of vectors. Rounding to \<^verbatim>\<open>float32\<close> is not modelled: the components
  are taken as they are stored, so equality of vectors here is the specification's
  equality within floating-point tolerance. What numpy's conversions reject is modelled:
  \<^item> \<^verbatim>\<open>np.array(data).astype(np.float32)\<close> raises \<^verbatim>\<open>ValueError\<close> on a ragged batch, one whose
    rows differ in length; the empty batch becomes an array of shape \<^verbatim>\<open>(0,)\<close>;
  \<^item> \<^verbatim>\<open>np.array(ids, dtype='int64')\<close> raises \<^verbatim>\<open>OverflowError\<close> on an id outside the signed
    64-bit range;
  \<^item> \<^verbatim>\<open>np.vstack\<close> of a list of rows is the list itself, and raises \<^verbatim>\<open>ValueError\<close> on the
    empty list.
\<close>

definition np_ragged :: "'a list list \<Rightarrow> bool" where
  "np_ragged rows = list_ex (\<lambda>v. length v \<noteq> length (hd rows)) rows"

definition np_array_float32 :: "'a list list \<Rightarrow> error + 'a list list" where
  "np_array_float32 data = (if np_ragged data then Inl ValueError else Inr data)"

definition np_array_int64 :: "int list \<Rightarrow> error + int list" where
  "np_array_int64 ids =
     (if list_ex (\<lambda>i. i < - (2 ^ 63) \<or> 2 ^ 63 \<le> i) ids then Inl OverflowError else Inr ids)"

definition np_vstack :: "'a list list \<Rightarrow> error + 'a list list" where
  "np_vstack rows = (if rows = [] then Inl ValueError else Inr rows)"

section \<open>The import of the module\<close>

text \<open>
  The module's top level, as a function of the modules that can be imported where it runs.
  \<^verbatim>\<open>numpy\<close> and \<^verbatim>\<open>sklearn\<close> are imported unconditionally. The three optional imports are
  guarded by \<^verbatim>\<open>except ModuleNotFoundError\<close> and add their name to \<^verbatim>\<open>available_engines\<close>.
  Without \<^verbatim>\<open>hnswlib\<close> the name is bound to \<^verbatim>\<open>HNSWMock(None, 0)\<close>, so the class statement
  \<^verbatim>\<open>class LazyHnsw(hnswlib.Index)\<close> has the base \<^verbatim>\<open>None\<close>, which Python rejects with
  \<^verbatim>\<open>TypeError\<close>: the import fails there. The result is the exception, or the value of
  \<^verbatim>\<open>available_engines\<close> when the import has succeeded.
\<close>

definition import_module :: "string set \<Rightarrow> error + string set" where
  "import_module importable =
     (if ''numpy'' \<notin> importable \<or> ''sklearn'' \<notin> importable then Inl ModuleNotFoundError
      else if ''hnswlib'' \<notin> importable then Inl TypeError
      else Inr ({''sklearn'', ''hnswlib''}
                \<union> (if ''faiss'' \<in> importable then {''faiss''} else {})
                \<union> (if ''redis'' \<in> importable then {''redis''} else {})))"

section \<open>The reference adapter: SciKitNearestNeighbors\<close>

text \<open>
  \<^verbatim>\<open>sklearn.neighbors.NearestNeighbors\<close> is an external engine. The adapter gives it a
  metric at construction, where the engine does not check it, and the stored items at
  \<^verbatim>\<open>fit\<close>. \<^verbatim>\<open>fit\<close> raises \<^verbatim>\<open>ValueError\<close> on an input with no samples, with ragged rows or
  with rows of no features. The query \<^verbatim>\<open>kneighbors\<close> is opaque: the model takes it as a
  function of the engine object, the queries and \<open>k\<close>.
\<close>

record 'a nearest_neighbors =
  nn_metric :: string
  nn_fit_X :: "'a list list option"

definition NearestNeighbors_fit ::
  "'a list list \<Rightarrow> 'a nearest_neighbors \<Rightarrow> error + 'a nearest_neighbors" where
  "NearestNeighbors_fit X nn =
     (if X = [] \<or> np_ragged X \<or> hd X = [] then Inl ValueError
      else Inr (nn\<lparr>nn_fit_X := Some X\<rparr>))"

record 'a scikit_nearest_neighbors =
  sk_space :: string
  sk_dim :: nat
  sk_items :: "'a list list"
  sk_ids :: "int list"
  sk_fitted :: bool
  sk_index :: "'a nearest_neighbors"

text \<open>
  \<^verbatim>\<open>__init__(self, space, dim, index_factory=None, **kwargs)\<close>. The second component of
  the result is what the constructor writes to \<^verbatim>\<open>sys.stderr\<close>.
\<close>

definition SciKitNearestNeighbors_init ::
  "string \<Rightarrow> nat \<Rightarrow> 'a scikit_nearest_neighbors \<times> string list" where
  "SciKitNearestNeighbors_init space dim =
     (let (space', err) =
        (if space = ''ip'' then
           (''cosine'', [''Warning: ip is not supported by sklearn, falling back to cosine''])
         else (space, []))
      in (\<lparr>sk_space = space', sk_dim = dim, sk_items = [], sk_ids = [], sk_fitted = False,
           sk_index = \<lparr>nn_metric = space', nn_fit_X = None\<rparr>\<rparr>, err))"

text \<open>
  \<^verbatim>\<open>add_items(self, data, ids=None, num_threads=-1)\<close>: \<^verbatim>\<open>self.items.extend(data)\<close> runs
  first, so with \<^verbatim>\<open>ids=None\<close> the \<^verbatim>\<open>TypeError\<close> of \<^verbatim>\<open>self.ids.extend(None)\<close> comes when the
  items are already extended.
\<close>

definition SciKitNearestNeighbors_add_items ::
  "'a list list \<Rightarrow> int list option \<Rightarrow> 'a scikit_nearest_neighbors
     \<Rightarrow> (unit, 'a scikit_nearest_neighbors) outcome" where
  "SciKitNearestNeighbors_add_items data ids s =
     (let s1 = s\<lparr>sk_items := sk_items s @ data\<rparr>
      in case ids of
           None \<Rightarrow> Raises TypeError s1
         | Some is \<Rightarrow> Returns () (s1\<lparr>sk_ids := sk_ids s1 @ is, sk_fitted := False\<rparr>))"

text \<open>\<^verbatim>\<open>[self.items[self.ids.index(i)] for i in ids]\<close>, stopping at the first exception.\<close>

fun SciKitNearestNeighbors_lookup ::
  "'a scikit_nearest_neighbors \<Rightarrow> int list \<Rightarrow> error + 'a list list" where
  "SciKitNearestNeighbors_lookup s [] = Inr []"
| "SciKitNearestNeighbors_lookup s (i # is) =
     (case list_index (sk_ids s) i of
        Inl e \<Rightarrow> Inl e
      | Inr j \<Rightarrow>
          (case getitem (sk_items s) j of
             Inl e \<Rightarrow> Inl e
           | Inr v \<Rightarrow>
               (case SciKitNearestNeighbors_lookup s is of
                  Inl e \<Rightarrow> Inl e
                | Inr vs \<Rightarrow> Inr (v # vs))))"

definition SciKitNearestNeighbors_get_items ::
  "int list option \<Rightarrow> 'a scikit_nearest_neighbors \<Rightarrow> error + 'a list list" where
  "SciKitNearestNeighbors_get_items ids s =
     (case ids of None \<Rightarrow> Inl TypeError | Some is \<Rightarrow> SciKitNearestNeighbors_lookup s is)"

definition SciKitNearestNeighbors_search ::
  "('a nearest_neighbors \<Rightarrow> 'a list list \<Rightarrow> nat \<Rightarrow> error + 'r) \<Rightarrow> 'a list list \<Rightarrow> nat
     \<Rightarrow> 'a scikit_nearest_neighbors \<Rightarrow> ('r, 'a scikit_nearest_neighbors) outcome" where
  "SciKitNearestNeighbors_search kneighbors data k s =
     (case (if \<not> sk_fitted s then
              (case NearestNeighbors_fit (sk_items s) (sk_index s) of
                 Inl e \<Rightarrow> Inl e
               | Inr nn \<Rightarrow> Inr (s\<lparr>sk_index := nn, sk_fitted := True\<rparr>))
            else Inr s) of
        Inl e \<Rightarrow> Raises e s
      | Inr s1 \<Rightarrow>
          (case kneighbors (sk_index s1) data k of
             Inl e \<Rightarrow> Raises e s1
           | Inr r \<Rightarrow> Returns r s1))"

definition SciKitNearestNeighbors_get_max_elements :: "'a scikit_nearest_neighbors \<Rightarrow> int" where
  "SciKitNearestNeighbors_get_max_elements s = - 1"

definition SciKitNearestNeighbors_get_current_count :: "'a scikit_nearest_neighbors \<Rightarrow> int" where
  "SciKitNearestNeighbors_get_current_count s = int (length (sk_items s))"

section \<open>The faiss adapter: FaissIndexFactory\<close>

text \<open>
  The faiss engine is external. \<^verbatim>\<open>faiss.index_factory(dim, description, metric)\<close> builds
  an index of dimension \<open>dim\<close> for one of faiss's metrics, or raises \<^verbatim>\<open>RuntimeError\<close> when
  it cannot build an index from the description. Which dimensions and descriptions faiss
  builds, and whether the index it builds is ready to store vectors (\<^verbatim>\<open>is_trained\<close>) or
  needs training first, is faiss's own table: the model takes it as a function \<open>builds\<close>,
  \<open>None\<close> where faiss builds nothing and otherwise the value of \<^verbatim>\<open>is_trained\<close>.
  \<^verbatim>\<open>faiss.IndexIDMap2\<close> wraps the index so that vectors are stored and reconstructed under
  caller-supplied ids. The model keeps what the adapter can observe: the dimension, the
  description, the metric, \<^verbatim>\<open>is_trained\<close> and the stored (id, vector) pairs in insertion
  order.
  \<^verbatim>\<open>add_with_ids(x, ids)\<close> reads \<^verbatim>\<open>n, d = x.shape\<close>, which raises \<^verbatim>\<open>ValueError\<close> on the
  one-dimensional array of an empty batch, then asserts that \<open>d\<close> is the index's dimension
  and that there are \<open>n\<close> ids, then hands the arrays to the engine, which raises
  \<^verbatim>\<open>RuntimeError\<close> on an index that is not trained, and only then stores. \<^verbatim>\<open>reconstruct\<close>
  returns the vector last stored under an id and raises \<^verbatim>\<open>RuntimeError\<close> for an unknown
  id; \<^verbatim>\<open>ntotal\<close> counts the stored vectors. The query \<^verbatim>\<open>index.search\<close> is opaque. The stored
  form of a vector is the vector as given: this is the engine's behaviour for the
  description \<^verbatim>\<open>Flat\<close> (a compressing description stores a code and reconstructs an
  approximation), so what \<^verbatim>\<open>reconstruct\<close> returns after an insertion is stated for \<^verbatim>\<open>Flat\<close>
  only.
\<close>

datatype faiss_metric = METRIC_INNER_PRODUCT | METRIC_L2

record 'a faiss_index =
  fi_d :: nat
  fi_description :: string
  fi_metric_type :: faiss_metric
  fi_id_map2 :: bool
  fi_is_trained :: bool
  fi_vectors :: "(int \<times> 'a list) list"

definition faiss_index_factory ::
  "(nat \<Rightarrow> string \<Rightarrow> bool option) \<Rightarrow> nat \<Rightarrow> string \<Rightarrow> faiss_metric
     \<Rightarrow> error + 'a faiss_index" where
  "faiss_index_factory builds d description metric_type =
     (case builds d description of
        None \<Rightarrow> Inl RuntimeError
      | Some trained \<Rightarrow>
          Inr \<lparr>fi_d = d, fi_description = description, fi_metric_type = metric_type,
               fi_id_map2 = False, fi_is_trained = trained, fi_vectors = []\<rparr>)"

definition faiss_IndexIDMap2 :: "'a faiss_index \<Rightarrow> 'a faiss_index" where
  "faiss_IndexIDMap2 ix = ix\<lparr>fi_id_map2 := True\<rparr>"

definition faiss_add_with_ids ::
  "'a list list \<Rightarrow> int list \<Rightarrow> 'a faiss_index \<Rightarrow> error + 'a faiss_index" where
  "faiss_add_with_ids x ids ix =
     (if x = [] then Inl ValueError
      else if length (hd x) \<noteq> fi_d ix then Inl AssertionError
      else if length ids \<noteq> length x then Inl AssertionError
      else if \<not> fi_is_trained ix then Inl RuntimeError
      else Inr (ix\<lparr>fi_vectors := fi_vectors ix @ zip ids x\<rparr>))"

definition faiss_reconstruct :: "int \<Rightarrow> 'a faiss_index \<Rightarrow> error + 'a list" where
  "faiss_reconstruct key ix =
     (case map_of (rev (fi_vectors ix)) key of None \<Rightarrow> Inl RuntimeError | Some v \<Rightarrow> Inr v)"

definition faiss_ntotal :: "'a faiss_index \<Rightarrow> int" where
  "faiss_ntotal ix = int (length (fi_vectors ix))"

record 'a faiss_index_factory_adapter =
  fa_index :: "'a faiss_index"

text \<open>
  \<^verbatim>\<open>__init__(self, space, dim, index_factory, **kwargs)\<close>. The result is the new object
  or the exception, paired with what the constructor writes to \<^verbatim>\<open>sys.stderr\<close>. The
  engine builds the index before the warning is written, so an exception of
  \<^verbatim>\<open>faiss.index_factory\<close> leaves \<^verbatim>\<open>sys.stderr\<close> empty.
\<close>

definition FaissIndexFactory_init ::
  "(nat \<Rightarrow> string \<Rightarrow> bool option) \<Rightarrow> string \<Rightarrow> nat \<Rightarrow> string
     \<Rightarrow> (error + 'a faiss_index_factory_adapter) \<times> string list" where
  "FaissIndexFactory_init builds space dim index_factory =
     (let index_factory = (if index_factory = '''' then ''Flat'' else index_factory)
      in if space \<in> set [''ip'', ''cosine''] then
           (case faiss_index_factory builds dim index_factory METRIC_INNER_PRODUCT of
              Inl e \<Rightarrow> (Inl e, [])
            | Inr ix \<Rightarrow>
                (Inr \<lparr>fa_index = faiss_IndexIDMap2 ix\<rparr>,
                 if space = ''cosine'' then
                   [''cosine is not supported yet, falling back to dot'' @ [CHR 0x0A]]
                 else []))
         else if space = ''l2'' then
           (case faiss_index_factory builds dim index_factory METRIC_L2 of
              Inl e \<Rightarrow> (Inl e, [])
            | Inr ix \<Rightarrow> (Inr \<lparr>fa_index = faiss_IndexIDMap2 ix\<rparr>, []))
         else (Inl TypeError, []))"

text \<open>
  \<^verbatim>\<open>add_items(self, data, ids)\<close>: the conversion of \<^verbatim>\<open>data\<close> (line 69), then the conversion
  of \<^verbatim>\<open>ids\<close> as the argument of the call, then \<^verbatim>\<open>add_with_ids\<close>.
\<close>

definition FaissIndexFactory_add_items ::
  "'a list list \<Rightarrow> int list \<Rightarrow> 'a faiss_index_factory_adapter
     \<Rightarrow> (unit, 'a faiss_index_factory_adapter) outcome" where
  "FaissIndexFactory_add_items data ids s =
     (case np_array_float32 data of
        Inl e \<Rightarrow> Raises e s
      | Inr x \<Rightarrow>
          (case np_array_int64 ids of
             Inl e \<Rightarrow> Raises e s
           | Inr labels \<Rightarrow>
               (case faiss_add_with_ids x labels (fa_index s) of
                  Inl e \<Rightarrow> Raises e s
                | Inr ix \<Rightarrow> Returns () (s\<lparr>fa_index := ix\<rparr>))))"

text \<open>\<^verbatim>\<open>[self.index.reconstruct(int(v)) for v in ids]\<close>, stopping at the first exception.\<close>

fun FaissIndexFactory_reconstruct_all ::
  "'a faiss_index \<Rightarrow> int list \<Rightarrow> error + 'a list list" where
  "FaissIndexFactory_reconstruct_all ix [] = Inr []"
| "FaissIndexFactory_reconstruct_all ix (v # vs) =
     (case faiss_reconstruct v ix of
        Inl e \<Rightarrow> Inl e
      | Inr r \<Rightarrow>
          (case FaissIndexFactory_reconstruct_all ix vs of
             Inl e \<Rightarrow> Inl e
           | Inr rs \<Rightarrow> Inr (r # rs)))"

definition FaissIndexFactory_get_items ::
  "int list \<Rightarrow> 'a faiss_index_factory_adapter \<Rightarrow> error + 'a list list" where
  "FaissIndexFactory_get_items ids s =
     (case FaissIndexFactory_reconstruct_all (fa_index s) ids of
        Inl e \<Rightarrow> Inl e
      | Inr rows \<Rightarrow> np_vstack rows)"

definition FaissIndexFactory_get_max_elements :: "'a faiss_index_factory_adapter \<Rightarrow> int" where
  "FaissIndexFactory_get_max_elements s = - 1"

definition FaissIndexFactory_get_current_count :: "'a faiss_index_factory_adapter \<Rightarrow> int" where
  "FaissIndexFactory_get_current_count s = faiss_ntotal (fa_index s)"

definition FaissIndexFactory_search ::
  "('a faiss_index \<Rightarrow> 'a list list \<Rightarrow> nat \<Rightarrow> error + 'r) \<Rightarrow> 'a list list \<Rightarrow> nat
     \<Rightarrow> 'a faiss_index_factory_adapter \<Rightarrow> error + 'r" where
  "FaissIndexFactory_search index_search data k s =
     (case np_array_float32 data of
        Inl e \<Rightarrow> Inl e
      | Inr x \<Rightarrow> index_search (fa_index s) x k)"

section \<open>The hnswlib adapter: LazyHnsw\<close>

text \<open>
  \<^verbatim>\<open>LazyHnsw\<close> is a subclass of the external class \<^verbatim>\<open>hnswlib.Index\<close>, and every method
  of it ends in a call to the method it overrides. The base class is modelled as far as
  the adapter observes it:
  \<^item> \<^verbatim>\<open>Index(space, dim)\<close> accepts the spaces \<^verbatim>\<open>l2\<close>, \<^verbatim>\<open>ip\<close> and \<^verbatim>\<open>cosine\<close> and allocates
    nothing;
  \<^item> the properties \<^verbatim>\<open>max_elements\<close> and \<^verbatim>\<open>element_count\<close> read 0 until \<^verbatim>\<open>init_index\<close>
    has run, and afterwards the allocated capacity and the number of stored elements;
  \<^item> \<^verbatim>\<open>init_index(max_elements, M, ef_construction)\<close> allocates that capacity, and raises
    \<^verbatim>\<open>RuntimeError\<close> on an index that is already initialised;
  \<^item> \<^verbatim>\<open>resize_index(new_size)\<close> sets the capacity to \<open>new_size\<close>; it raises
    \<^verbatim>\<open>RuntimeError\<close> and keeps the capacity when \<open>new_size\<close> is below the number of stored
    elements, and when \<open>new_size\<close> is 0, where the reallocation of the base layer returns
    no memory;
  \<^item> \<^verbatim>\<open>add_items(data, ids)\<close> converts \<^verbatim>\<open>data\<close> to an array of floats (\<^verbatim>\<open>ValueError\<close> on
    ragged rows; the empty batch is read as one row of no features), checks the
    dimension of the rows (\<^verbatim>\<open>RuntimeError\<close>), converts \<^verbatim>\<open>ids\<close> to an array of \<^verbatim>\<open>size_t\<close>
    (\<^verbatim>\<open>OverflowError\<close> on a label that is negative or not below \<open>2\<^sup>6\<^sup>4\<close>) and checks the
    number of labels (\<^verbatim>\<open>RuntimeError\<close>), all before it stores anything; it labels the
    rows with a running counter when \<open>ids\<close> is \<^verbatim>\<open>None\<close>, overwrites the vector of a label
    that is already stored, and raises \<^verbatim>\<open>RuntimeError\<close> at the first new label that
    exceeds the capacity;
  \<^item> \<^verbatim>\<open>get_items(ids)\<close> converts \<^verbatim>\<open>ids\<close> as \<^verbatim>\<open>add_items\<close> does and returns the stored
    vectors, \<^verbatim>\<open>RuntimeError\<close> for an unknown label;
  \<^item> \<^verbatim>\<open>knn_query\<close> is opaque: a function of the index, the queries and \<open>k\<close>.
  Sizes are natural numbers, as the engine's \<^verbatim>\<open>size_t\<close> arguments are. The stored form
  of a vector is the vector as given; this is the engine's behaviour for the spaces \<^verbatim>\<open>l2\<close>
  and \<^verbatim>\<open>ip\<close> (for \<^verbatim>\<open>cosine\<close> it stores the normalised vector), so what \<^verbatim>\<open>get_items\<close>
  returns is stated for these two spaces only.
\<close>

record 'a hnsw_index =
  hn_space :: string
  hn_dim :: nat
  hn_index_inited :: bool
  hn_capacity :: nat
  hn_M :: nat
  hn_ef_construction :: nat
  hn_ef :: nat
  hn_cur_l :: nat
  hn_elements :: "(int \<times> 'a list) list"

definition max_elements :: "('a, 'm) hnsw_index_scheme \<Rightarrow> nat" where
  "max_elements h = (if hn_index_inited h then hn_capacity h else 0)"

definition element_count :: "('a, 'm) hnsw_index_scheme \<Rightarrow> nat" where
  "element_count h = (if hn_index_inited h then length (hn_elements h) else 0)"

definition Index_new :: "string \<Rightarrow> nat \<Rightarrow> error + 'a hnsw_index" where
  "Index_new space dim =
     (if space \<in> set [''l2'', ''ip'', ''cosine''] then
        Inr \<lparr>hn_space = space, hn_dim = dim, hn_index_inited = False, hn_capacity = 0,
             hn_M = 0, hn_ef_construction = 0, hn_ef = 10, hn_cur_l = 0, hn_elements = []\<rparr>
      else Inl RuntimeError)"

definition Index_init_index ::
  "nat \<Rightarrow> nat \<Rightarrow> nat \<Rightarrow> ('a, 'm) hnsw_index_scheme
     \<Rightarrow> (unit, ('a, 'm) hnsw_index_scheme) outcome" where
  "Index_init_index n M ef_construction h =
     (if hn_index_inited h then Raises RuntimeError h
      else Returns () (h\<lparr>hn_index_inited := True, hn_capacity := n, hn_M := M,
                         hn_ef_construction := ef_construction, hn_cur_l := 0,
                         hn_elements := []\<rparr>))"

definition Index_resize_index ::
  "nat \<Rightarrow> ('a, 'm) hnsw_index_scheme \<Rightarrow> (unit, ('a, 'm) hnsw_index_scheme) outcome" where
  "Index_resize_index new_size h =
     (if \<not> hn_index_inited h then Raises RuntimeError h
      else if new_size < length (hn_elements h) then Raises RuntimeError h
      else if new_size = 0 then Raises RuntimeError h
      else Returns () (h\<lparr>hn_capacity := new_size\<rparr>))"

definition size_t_labels :: "int list \<Rightarrow> error + int list" where
  "size_t_labels ids =
     (if list_ex (\<lambda>i. i < 0 \<or> 2 ^ 64 \<le> i) ids then Inl OverflowError else Inr ids)"

fun Index_add_points ::
  "(int \<times> 'a list) list \<Rightarrow> ('a, 'm) hnsw_index_scheme
     \<Rightarrow> (unit, ('a, 'm) hnsw_index_scheme) outcome" where
  "Index_add_points [] h = Returns () h"
| "Index_add_points ((label, v) # rest) h =
     (if label \<in> set (map fst (hn_elements h)) then
        Index_add_points rest
          (h\<lparr>hn_elements := map (\<lambda>(l, w). if l = label then (l, v) else (l, w)) (hn_elements h)\<rparr>)
      else if hn_capacity h \<le> length (hn_elements h) then Raises RuntimeError h
      else Index_add_points rest (h\<lparr>hn_elements := hn_elements h @ [(label, v)]\<rparr>))"

definition Index_add_items ::
  "'a list list \<Rightarrow> int list option \<Rightarrow> ('a, 'm) hnsw_index_scheme
     \<Rightarrow> (unit, ('a, 'm) hnsw_index_scheme) outcome" where
  "Index_add_items data ids h =
     (if \<not> hn_index_inited h then Raises RuntimeError h
      else if np_ragged data then Raises ValueError h
      else
        (let rows = (if data = [] then [[]] else data)
         in if length (hd rows) \<noteq> hn_dim h then Raises RuntimeError h
            else
              (case (case ids of
                       None \<Rightarrow> Inr (map (\<lambda>row. int (hn_cur_l h + row)) [0..<length rows])
                     | Some id_list \<Rightarrow> size_t_labels id_list) of
                 Inl e \<Rightarrow> Raises e h
               | Inr labels \<Rightarrow>
                   if length labels \<noteq> length rows then Raises RuntimeError h
                   else (case Index_add_points (zip labels rows) h of
                           Raises e h1 \<Rightarrow> Raises e h1
                         | Returns u h1 \<Rightarrow>
                             Returns () (h1\<lparr>hn_cur_l := hn_cur_l h1 + length rows\<rparr>)))))"

fun Index_get_data :: "('a, 'm) hnsw_index_scheme \<Rightarrow> int list \<Rightarrow> error + 'a list list" where
  "Index_get_data h [] = Inr []"
| "Index_get_data h (i # rest) =
     (case map_of (hn_elements h) i of
        None \<Rightarrow> Inl RuntimeError
      | Some v \<Rightarrow>
          (case Index_get_data h rest of
             Inl e \<Rightarrow> Inl e
           | Inr vs \<Rightarrow> Inr (v # vs)))"

definition Index_get_items ::
  "int list option \<Rightarrow> ('a, 'm) hnsw_index_scheme \<Rightarrow> error + 'a list list" where
  "Index_get_items ids h =
     (case ids of
        None \<Rightarrow> Inr []
      | Some id_list \<Rightarrow>
          (case size_t_labels id_list of
             Inl e \<Rightarrow> Inl e
           | Inr labels \<Rightarrow> Index_get_data h labels))"

definition Index_set_ef :: "nat \<Rightarrow> ('a, 'm) hnsw_index_scheme \<Rightarrow> ('a, 'm) hnsw_index_scheme" where
  "Index_set_ef ef h = h\<lparr>hn_ef := ef\<rparr>"

text \<open>The subclass adds three attributes that keep the constructor's arguments.\<close>

record 'a lazy_hnsw = "'a hnsw_index" +
  init_max_elements :: nat
  init_ef_construction :: nat
  init_M :: nat

text \<open>
  \<^verbatim>\<open>__init__(self, space, dim, index_factory=None, max_elements=1024, ef_construction=200,
  M=16)\<close>. An omitted keyword argument is \<open>None\<close> here and takes the default of the
  signature; \<^verbatim>\<open>index_factory\<close> is not used by the body and is left out.
\<close>

definition LazyHnsw_new ::
  "string \<Rightarrow> nat \<Rightarrow> nat option \<Rightarrow> nat option \<Rightarrow> nat option \<Rightarrow> error + 'a lazy_hnsw" where
  "LazyHnsw_new space dim max_elements_arg ef_construction_arg M_arg =
     (case Index_new space dim of
        Inl e \<Rightarrow> Inl e
      | Inr base \<Rightarrow>
          Inr (hnsw_index.extend base
                 \<lparr>init_max_elements = (case max_elements_arg of None \<Rightarrow> 1024 | Some n \<Rightarrow> n),
                  init_ef_construction = (case ef_construction_arg of None \<Rightarrow> 200 | Some n \<Rightarrow> n),
                  init_M = (case M_arg of None \<Rightarrow> 16 | Some n \<Rightarrow> n)\<rparr>))"

text \<open>\<^verbatim>\<open>init(self, max_elements=0)\<close>.\<close>

definition LazyHnsw_init :: "nat \<Rightarrow> 'a lazy_hnsw \<Rightarrow> (unit, 'a lazy_hnsw) outcome" where
  "LazyHnsw_init max_elements_arg h =
     (let n = (if max_elements_arg = 0 then init_max_elements h else max_elements_arg)
      in Index_init_index n (init_M h) (init_ef_construction h) h)"

text \<open>
  \<^verbatim>\<open>add_items(self, data, ids=None, num_threads=-1)\<close>: the three statements of the body
  in their order; an exception of \<^verbatim>\<open>init\<close> or \<^verbatim>\<open>resize_index\<close> ends the call.
\<close>

definition LazyHnsw_add_items ::
  "'a list list \<Rightarrow> int list option \<Rightarrow> 'a lazy_hnsw \<Rightarrow> (unit, 'a lazy_hnsw) outcome" where
  "LazyHnsw_add_items data ids h =
     (case (if max_elements h = 0 then LazyHnsw_init 0 h else Returns () h) of
        Raises e h1 \<Rightarrow> Raises e h1
      | Returns u h1 \<Rightarrow>
          (case (if max_elements h1 < length data + element_count h1 then
                   Index_resize_index (max (length data + element_count h1) (max_elements h1)) h1
                 else Returns () h1) of
             Raises e h2 \<Rightarrow> Raises e h2
           | Returns u h2 \<Rightarrow> Index_add_items data ids h2))"

definition LazyHnsw_add :: "'a list list \<Rightarrow> 'a lazy_hnsw \<Rightarrow> (unit, 'a lazy_hnsw) outcome" where
  "LazyHnsw_add data h = LazyHnsw_add_items data None h"

definition LazyHnsw_get_items :: "int list option \<Rightarrow> 'a lazy_hnsw \<Rightarrow> error + 'a list list" where
  "LazyHnsw_get_items ids h = (if max_elements h = 0 then Inr [] else Index_get_items ids h)"

definition LazyHnsw_knn_query ::
  "('a lazy_hnsw \<Rightarrow> 'a list list \<Rightarrow> nat \<Rightarrow> error + 'l list \<times> 'd list) \<Rightarrow> 'a list list \<Rightarrow> nat
     \<Rightarrow> 'a lazy_hnsw \<Rightarrow> error + 'l list \<times> 'd list" where
  "LazyHnsw_knn_query Index_knn_query data k h =
     (if max_elements h = 0 then Inr ([], []) else Index_knn_query h data k)"

definition LazyHnsw_search ::
  "('a lazy_hnsw \<Rightarrow> 'a list list \<Rightarrow> nat \<Rightarrow> error + 'l list \<times> 'd list) \<Rightarrow> 'a list list \<Rightarrow> nat
     \<Rightarrow> 'a lazy_hnsw \<Rightarrow> error + 'd list \<times> 'l list" where
  "LazyHnsw_search Index_knn_query data k h =
     (case LazyHnsw_knn_query Index_knn_query data k h of
        Inl e \<Rightarrow> Inl e
      | Inr (I, D) \<Rightarrow> Inr (D, I))"

definition LazyHnsw_resize_index :: "nat \<Rightarrow> 'a lazy_hnsw \<Rightarrow> (unit, 'a lazy_hnsw) outcome" where
  "LazyHnsw_resize_index size_arg h =
     (if max_elements h = 0 then LazyHnsw_init size_arg h else Index_resize_index size_arg h)"

definition LazyHnsw_set_ef :: "nat \<Rightarrow> 'a lazy_hnsw \<Rightarrow> 'a lazy_hnsw" where
  "LazyHnsw_set_ef ef h =
     (if max_elements h = 0 then h\<lparr>init_ef_construction := ef\<rparr> else Index_set_ef ef h)"

definition LazyHnsw_get_max_elements :: "'a lazy_hnsw \<Rightarrow> int" where
  "LazyHnsw_get_max_elements h = int (max_elements h)"

definition LazyHnsw_get_current_count :: "'a lazy_hnsw \<Rightarrow> int" where
  "LazyHnsw_get_current_count h = int (element_count h)"

section \<open>The redis adapter: RedisIndex\<close>

text \<open>
  The redis server and its client library are external. The model keeps the hashes the
  adapter writes (a key holds the three fields of one item) and the vector index that
  \<^verbatim>\<open>init_hnsw\<close> declares; \<^verbatim>\<open>create_index\<close> fails with \<^verbatim>\<open>ResponseError\<close> when the server
  already has the index. The connection to the server is taken to hold. The server's
  access control list may deny the adapter's user the writing of some keys, \<open>acl_denied\<close>;
  reading is not restricted.

  A pipeline is a client-side queue: \<^verbatim>\<open>hset\<close> on a pipeline appends a command, \<^verbatim>\<open>execute\<close>
  sends the queue to the server and empties it, whether or not it raises.
  \<^item> Without a transaction the server runs the commands one by one in their order: a
    \<^verbatim>\<open>HSET\<close> on a permitted key is written, a \<^verbatim>\<open>HSET\<close> on a denied key is answered with an
    error, and after the last command the client raises the first error it was answered,
    a \<^verbatim>\<open>ResponseError\<close>. The permitted writes stay.
  \<^item> With a transaction the commands travel between \<^verbatim>\<open>MULTI\<close> and \<^verbatim>\<open>EXEC\<close>: a denied
    command is refused when it is queued, the server then aborts the transaction at
    \<^verbatim>\<open>EXEC\<close> and writes nothing, and the client raises \<^verbatim>\<open>ResponseError\<close>.

  The encoding \<^verbatim>\<open>np.array(datum).astype(np.float32).tobytes()\<close> is numpy's; it raises for
  a datum that is not numeric. The model takes it as a function \<open>tobytes\<close> from a datum to
  an exception or the bytes. The query of \<^verbatim>\<open>search\<close> is the server's and is opaque.
\<close>

record 'b redis_hash =
  h_embedding :: 'b
  h_item_id :: string
  h_partition :: string

record redis_vector_field =
  vf_DIM :: nat
  vf_DISTANCE_METRIC :: string
  vf_INITIAL_CAP :: nat
  vf_M :: nat
  vf_EF_CONSTRUCTION :: nat

record 'b redis_server =
  hashes :: "string \<rightharpoonup> 'b redis_hash"
  ft_index :: "redis_vector_field option"
  acl_denied :: "string set"

record 'b redis_pipeline =
  pl_transaction :: bool
  pl_command_stack :: "(string \<times> 'b redis_hash) list"

definition Redis_pipeline :: "bool \<Rightarrow> 'b redis_pipeline" where
  "Redis_pipeline transaction_arg = \<lparr>pl_transaction = transaction_arg, pl_command_stack = []\<rparr>"

definition pipeline_hset :: "string \<Rightarrow> 'b redis_hash \<Rightarrow> 'b redis_pipeline \<Rightarrow> 'b redis_pipeline" where
  "pipeline_hset key mapping p = p\<lparr>pl_command_stack := pl_command_stack p @ [(key, mapping)]\<rparr>"

definition server_hset :: "string \<times> 'b redis_hash \<Rightarrow> 'b redis_server \<Rightarrow> 'b redis_server" where
  "server_hset cmd srv = srv\<lparr>hashes := (hashes srv)(fst cmd \<mapsto> snd cmd)\<rparr>"

definition permitted :: "'b redis_server \<Rightarrow> string \<times> 'b redis_hash \<Rightarrow> bool" where
  "permitted srv cmd = (fst cmd \<notin> acl_denied srv)"

definition pipeline_reset :: "'b redis_pipeline \<Rightarrow> 'b redis_pipeline" where
  "pipeline_reset p = p\<lparr>pl_command_stack := []\<rparr>"

text \<open>
  \<^verbatim>\<open>execute\<close> on the pipeline \<open>p\<close>; the state is the pipeline and the server.
\<close>

definition pipeline_execute ::
  "'b redis_pipeline \<Rightarrow> 'b redis_server
     \<Rightarrow> (unit, 'b redis_pipeline \<times> 'b redis_server) outcome" where
  "pipeline_execute p srv =
     (if list_all (permitted srv) (pl_command_stack p) then
        Returns () (pipeline_reset p, fold server_hset (pl_command_stack p) srv)
      else if pl_transaction p then Raises ResponseError (pipeline_reset p, srv)
      else Raises ResponseError
             (pipeline_reset p, fold server_hset (filter (permitted srv) (pl_command_stack p)) srv))"

definition server_hget_embedding :: "'b redis_server \<Rightarrow> string \<Rightarrow> 'b option" where
  "server_hget_embedding srv key = map_option h_embedding (hashes srv key)"

record 'b redis_index =
  rd_space :: string
  rd_dim :: nat
  rd_max_elements :: nat
  rd_ef_construction :: nat
  rd_M :: nat
  rd_redis :: "'b redis_server"
  rd_pipe :: "'b redis_pipeline option"

text \<open>\<^verbatim>\<open>init_hnsw(self)\<close>: declares the vector index on the server.\<close>

definition RedisIndex_init_hnsw :: "'b redis_index \<Rightarrow> (unit, 'b redis_index) outcome" where
  "RedisIndex_init_hnsw r =
     (if ft_index (rd_redis r) \<noteq> None then Raises ResponseError r
      else Returns ()
             (r\<lparr>rd_redis := (rd_redis r)
                   \<lparr>ft_index := Some \<lparr>vf_DIM = rd_dim r, vf_DISTANCE_METRIC = rd_space r,
                                      vf_INITIAL_CAP = rd_max_elements r, vf_M = rd_M r,
                                      vf_EF_CONSTRUCTION = rd_ef_construction r\<rparr>\<rparr>\<rparr>))"

text \<open>
  \<^verbatim>\<open>__init__(self, space, dim, index_factory=None, redis_credentials=None,
  max_elements=1024, ef_construction=200, M=16)\<close>. \<^verbatim>\<open>Redis(**redis_credentials)\<close> is the
  connection to the server these credentials reach: the model's \<open>connect\<close>.
\<close>

definition RedisIndex_new ::
  "string \<Rightarrow> nat \<Rightarrow> 'c option \<Rightarrow> ('c \<Rightarrow> 'b redis_server) \<Rightarrow> nat option \<Rightarrow> nat option
     \<Rightarrow> nat option \<Rightarrow> error + 'b redis_index" where
  "RedisIndex_new space dim redis_credentials connect max_elements_arg ef_construction_arg M_arg =
     (case redis_credentials of
        None \<Rightarrow> Inl PyException
      | Some credentials \<Rightarrow>
          (case RedisIndex_init_hnsw
                  \<lparr>rd_space = space, rd_dim = dim,
                   rd_max_elements = (case max_elements_arg of None \<Rightarrow> 1024 | Some n \<Rightarrow> n),
                   rd_ef_construction = (case ef_construction_arg of None \<Rightarrow> 200 | Some n \<Rightarrow> n),
                   rd_M = (case M_arg of None \<Rightarrow> 16 | Some n \<Rightarrow> n),
                   rd_redis = connect credentials, rd_pipe = None\<rparr> of
             Raises e r \<Rightarrow> Inl e
           | Returns u r \<Rightarrow> Inr r))"

definition RedisIndex_enter :: "'b redis_index \<Rightarrow> 'b redis_index" where
  "RedisIndex_enter r = r\<lparr>rd_pipe := Some (Redis_pipeline True)\<rparr>"

text \<open>
  \<^verbatim>\<open>__exit__\<close>: \<^verbatim>\<open>self.pipe.execute()\<close> on \<^verbatim>\<open>None\<close> is Python's \<^verbatim>\<open>AttributeError\<close>. An
  exception of \<^verbatim>\<open>execute\<close> leaves the method before \<^verbatim>\<open>self.pipe = None\<close>.
\<close>

definition RedisIndex_exit :: "'b redis_index \<Rightarrow> (unit, 'b redis_index) outcome" where
  "RedisIndex_exit r =
     (case rd_pipe r of
        None \<Rightarrow> Raises AttributeError r
      | Some p \<Rightarrow>
          (case pipeline_execute p (rd_redis r) of
             Raises e (p1, srv) \<Rightarrow> Raises e (r\<lparr>rd_redis := srv, rd_pipe := Some p1\<rparr>)
           | Returns u (p1, srv) \<Rightarrow> Returns () (r\<lparr>rd_redis := srv, rd_pipe := None\<rparr>)))"

text \<open>
  The loop of \<^verbatim>\<open>add_items\<close> over \<^verbatim>\<open>zip(data, ids)\<close>: each round encodes the datum and
  queues one \<^verbatim>\<open>hset\<close> on the pipeline. An exception of the encoding ends the loop with
  the earlier commands still queued.
\<close>

fun RedisIndex_queue_items ::
  "('d \<Rightarrow> error + 'b) \<Rightarrow> string \<Rightarrow> ('d \<times> int) list \<Rightarrow> 'b redis_pipeline
     \<Rightarrow> (unit, 'b redis_pipeline) outcome" where
  "RedisIndex_queue_items tobytes part [] p = Returns () p"
| "RedisIndex_queue_items tobytes part ((datum, i) # rest) p =
     (let key = ''item:'' @ str_int i
      in case tobytes datum of
           Inl e \<Rightarrow> Raises e p
         | Inr emb \<Rightarrow>
             RedisIndex_queue_items tobytes part rest
               (pipeline_hset key
                  \<lparr>h_embedding = emb, h_item_id = str_int i, h_partition = part\<rparr> p))"

text \<open>
  \<^verbatim>\<open>add_items(self, data, ids=None, partition=None)\<close>: the new pipeline, the loop,
  \<^verbatim>\<open>self.pipe.execute()\<close> and \<^verbatim>\<open>self.pipe = None\<close>; \<^verbatim>\<open>zip(data, None)\<close> is Python's
  \<^verbatim>\<open>TypeError\<close>. An exception leaves the method with the pipeline still in \<^verbatim>\<open>self.pipe\<close>.
\<close>

definition RedisIndex_add_items ::
  "('d \<Rightarrow> error + 'b) \<Rightarrow> 'd list \<Rightarrow> int list option \<Rightarrow> string option \<Rightarrow> 'b redis_index
     \<Rightarrow> (unit, 'b redis_index) outcome" where
  "RedisIndex_add_items tobytes data ids partition_arg r =
     (let r1 = r\<lparr>rd_pipe := Some (Redis_pipeline False)\<rparr>;
          part = (case partition_arg of None \<Rightarrow> '''' | Some s \<Rightarrow> s)
      in case ids of
           None \<Rightarrow> Raises TypeError r1
         | Some id_list \<Rightarrow>
             (case RedisIndex_queue_items tobytes part (zip data id_list) (Redis_pipeline False) of
                Raises e p \<Rightarrow> Raises e (r1\<lparr>rd_pipe := Some p\<rparr>)
              | Returns u p \<Rightarrow>
                  (case pipeline_execute p (rd_redis r1) of
                     Raises e (p1, srv) \<Rightarrow> Raises e (r1\<lparr>rd_redis := srv, rd_pipe := Some p1\<rparr>)
                   | Returns u (p1, srv) \<Rightarrow>
                       Returns () (r1\<lparr>rd_redis := srv, rd_pipe := None\<rparr>))))"

text \<open>
  Two notions for statements about a batch. A pair of \<^verbatim>\<open>zip(data, ids)\<close> is encodable
  when numpy converts its datum; \<open>item_hset\<close> is the command that a round of the loop
  queues for an encodable pair.
\<close>

definition encodable :: "('d \<Rightarrow> error + 'b) \<Rightarrow> 'd \<times> int \<Rightarrow> bool" where
  "encodable tobytes x = (\<not> isl (tobytes (fst x)))"

definition item_hset ::
  "('d \<Rightarrow> error + 'b) \<Rightarrow> string \<Rightarrow> 'd \<times> int \<Rightarrow> string \<times> 'b redis_hash" where
  "item_hset tobytes part x =
     (''item:'' @ str_int (snd x),
      \<lparr>h_embedding = projr (tobytes (fst x)), h_item_id = str_int (snd x),
       h_partition = part\<rparr>)"

definition RedisIndex_get_items :: "int list option \<Rightarrow> 'b redis_index \<Rightarrow> error + 'b option list" where
  "RedisIndex_get_items ids r =
     (case ids of
        None \<Rightarrow> Inl TypeError
      | Some id_list \<Rightarrow>
          Inr (map (\<lambda>i. server_hget_embedding (rd_redis r) (''item:'' @ str_int i)) id_list))"

definition RedisIndex_get_current_count :: "'b redis_index \<Rightarrow> error + int" where
  "RedisIndex_get_current_count r = Inl NotImplementedError"

definition RedisIndex_get_max_elements :: "'b redis_index \<Rightarrow> int" where
  "RedisIndex_get_max_elements r = int (rd_max_elements r)"

section \<open>Example objects\<close>

text \<open>
  Concrete objects on which the theorems below are evaluated. Vector components are
  integers here. Each is the object its constructor returns, as the lemmas
  \<open>example_*_constructed\<close> show.
\<close>

definition example_hnsw :: "int lazy_hnsw" where
  "example_hnsw =
     \<lparr>hn_space = ''l2'', hn_dim = 4, hn_index_inited = False, hn_capacity = 0, hn_M = 0,
      hn_ef_construction = 0, hn_ef = 10, hn_cur_l = 0, hn_elements = [],
      init_max_elements = 1024, init_ef_construction = 200, init_M = 16\<rparr>"

definition example_hnsw_declared_0 :: "int lazy_hnsw" where
  "example_hnsw_declared_0 =
     \<lparr>hn_space = ''l2'', hn_dim = 4, hn_index_inited = False, hn_capacity = 0, hn_M = 0,
      hn_ef_construction = 0, hn_ef = 10, hn_cur_l = 0, hn_elements = [],
      init_max_elements = 0, init_ef_construction = 200, init_M = 16\<rparr>"

definition example_scikit :: "int scikit_nearest_neighbors" where
  "example_scikit =
     \<lparr>sk_space = ''l2'', sk_dim = 4, sk_items = [], sk_ids = [], sk_fitted = False,
      sk_index = \<lparr>nn_metric = ''l2'', nn_fit_X = None\<rparr>\<rparr>"

text \<open>
  A part of faiss's table, enough for the examples: \<^verbatim>\<open>Flat\<close> is built in every positive
  dimension and is ready to store, \<^verbatim>\<open>IVF2,Flat\<close> is built and needs training, and the
  string \<^verbatim>\<open>Bogus\<close>, like every other string here, describes no index.
\<close>

definition example_builds :: "nat \<Rightarrow> string \<Rightarrow> bool option" where
  "example_builds d description =
     (if d = 0 then None
      else if description = ''Flat'' then Some True
      else if description = ''IVF2,Flat'' then Some False
      else None)"

definition example_faiss :: "int faiss_index_factory_adapter" where
  "example_faiss =
     \<lparr>fa_index = \<lparr>fi_d = 4, fi_description = ''Flat'', fi_metric_type = METRIC_L2,
                    fi_id_map2 = True, fi_is_trained = True, fi_vectors = []\<rparr>\<rparr>"

definition example_server :: "int list redis_server" where
  "example_server = \<lparr>hashes = Map.empty, ft_index = None, acl_denied = {}\<rparr>"

definition example_redis :: "int list redis_index" where
  "example_redis =
     \<lparr>rd_space = ''L2'', rd_dim = 4, rd_max_elements = 1024, rd_ef_construction = 200,
      rd_M = 16,
      rd_redis = \<lparr>hashes = Map.empty,
                   ft_index = Some \<lparr>vf_DIM = 4, vf_DISTANCE_METRIC = ''L2'',
                                     vf_INITIAL_CAP = 1024, vf_M = 16,
                                     vf_EF_CONSTRUCTION = 200\<rparr>,
                   acl_denied = {}\<rparr>,
      rd_pipe = None\<rparr>"

text \<open>The same adapter on a server whose access control list denies the key of item 2.\<close>

definition example_redis_denied :: "int list redis_index" where
  "example_redis_denied =
     example_redis\<lparr>rd_redis := (rd_redis example_redis)\<lparr>acl_denied := {''item:2''}\<rparr>\<rparr>"

text \<open>
  An encoding for the examples: a datum is \<open>Some v\<close> when numpy can convert it and
  \<open>None\<close> when it cannot.
\<close>

definition example_tobytes :: "int list option \<Rightarrow> error + int list" where
  "example_tobytes datum = (case datum of None \<Rightarrow> Inl ValueError | Some v \<Rightarrow> Inr v)"

text \<open>
  The index of the specification's scenario: declared capacity 2, after the insertion of
  the ids 1 and 2.
\<close>

definition example_hnsw_two_items :: "int lazy_hnsw" where
  "example_hnsw_two_items =
     \<lparr>hn_space = ''l2'', hn_dim = 4, hn_index_inited = True, hn_capacity = 2, hn_M = 16,
      hn_ef_construction = 200, hn_ef = 10, hn_cur_l = 2,
      hn_elements = [(1, [0, 0, 0, 0]), (2, [1, 1, 1, 1])],
      init_max_elements = 2, init_ef_construction = 200, init_M = 16\<rparr>"

section \<open>Sequences of calls on the hnswlib adapter\<close>

text \<open>
  The methods of \<^verbatim>\<open>LazyHnsw\<close> as operations, to speak about sequences of calls.
  \<open>LazyHnsw_call\<close> is the object after one call, whether the call returned or raised; the
  reading methods leave the object as it is. \<open>LazyHnsw_capacities\<close> lists what
  \<^verbatim>\<open>get_max_elements()\<close> reports before the first call and after each call of a sequence.
\<close>

datatype 'a operation =
    Op_init nat
  | Op_add_items "'a list list" "int list option"
  | Op_add "'a list list"
  | Op_get_items "int list option"
  | Op_knn_query "'a list list" nat
  | Op_search "'a list list" nat
  | Op_resize_index nat
  | Op_set_ef nat
  | Op_get_max_elements
  | Op_get_current_count

fun LazyHnsw_call :: "'a operation \<Rightarrow> 'a lazy_hnsw \<Rightarrow> 'a lazy_hnsw" where
  "LazyHnsw_call (Op_init n) h = state_of (LazyHnsw_init n h)"
| "LazyHnsw_call (Op_add_items data ids) h = state_of (LazyHnsw_add_items data ids h)"
| "LazyHnsw_call (Op_add data) h = state_of (LazyHnsw_add data h)"
| "LazyHnsw_call (Op_get_items ids) h = h"
| "LazyHnsw_call (Op_knn_query data k) h = h"
| "LazyHnsw_call (Op_search data k) h = h"
| "LazyHnsw_call (Op_resize_index n) h = state_of (LazyHnsw_resize_index n h)"
| "LazyHnsw_call (Op_set_ef ef) h = LazyHnsw_set_ef ef h"
| "LazyHnsw_call Op_get_max_elements h = h"
| "LazyHnsw_call Op_get_current_count h = h"

fun LazyHnsw_capacities :: "'a operation list \<Rightarrow> 'a lazy_hnsw \<Rightarrow> int list" where
  "LazyHnsw_capacities [] h = [LazyHnsw_get_max_elements h]"
| "LazyHnsw_capacities (c # cs) h =
     LazyHnsw_get_max_elements h # LazyHnsw_capacities cs (LazyHnsw_call c h)"

text \<open>
  A call \<^verbatim>\<open>resize_index(n)\<close> shrinks when \<open>n\<close> is below the capacity the index has at
  that point of the sequence.
\<close>

fun shrinking :: "'a operation \<Rightarrow> 'a lazy_hnsw \<Rightarrow> bool" where
  "shrinking (Op_resize_index n) h = (n < max_elements h)"
| "shrinking c h = False"

fun no_shrinking_resize :: "'a operation list \<Rightarrow> 'a lazy_hnsw \<Rightarrow> bool" where
  "no_shrinking_resize [] h = True"
| "no_shrinking_resize (c # cs) h =
     (\<not> shrinking c h \<and> no_shrinking_resize cs (LazyHnsw_call c h))"

section \<open>The example objects are constructed objects\<close>

lemma example_hnsw_constructed: "LazyHnsw_new ''l2'' 4 None None None = Inr example_hnsw"
  by (simp add: LazyHnsw_new_def Index_new_def example_hnsw_def hnsw_index.extend_def)

lemma example_hnsw_declared_0_constructed:
  "LazyHnsw_new ''l2'' 4 (Some 0) None None = Inr example_hnsw_declared_0"
  by (simp add: LazyHnsw_new_def Index_new_def example_hnsw_declared_0_def hnsw_index.extend_def)

lemma example_scikit_constructed: "SciKitNearestNeighbors_init ''l2'' 4 = (example_scikit, [])"
  by (simp add: SciKitNearestNeighbors_init_def example_scikit_def)

lemma example_faiss_constructed:
  "FaissIndexFactory_init example_builds ''l2'' 4 '''' = (Inr example_faiss, [])"
  by (simp add: FaissIndexFactory_init_def example_faiss_def faiss_IndexIDMap2_def
      faiss_index_factory_def example_builds_def)

lemma example_redis_constructed:
  "RedisIndex_new ''L2'' 4 (Some ()) (\<lambda>credentials. example_server) None None None
     = Inr example_redis"
  by (simp add: RedisIndex_new_def RedisIndex_init_hnsw_def example_server_def example_redis_def)

lemma example_hnsw_two_items_constructed:
  "\<exists>h0. LazyHnsw_new ''l2'' 4 (Some 2) None None = Inr h0
     \<and> LazyHnsw_add_items [[0, 0, 0, 0], [1, 1, 1, 1]] (Some [1, 2]) h0
         = Returns () example_hnsw_two_items"
  by (simp add: LazyHnsw_new_def Index_new_def hnsw_index.extend_def LazyHnsw_add_items_def
      LazyHnsw_init_def Index_init_index_def max_elements_def element_count_def
      Index_add_items_def example_hnsw_two_items_def np_ragged_def size_t_labels_def)

section \<open>Auxiliary lemmas\<close>

subsection \<open>Properties of backend selection\<close>

text \<open>
  Whenever the module has been imported, \<^verbatim>\<open>hnswlib\<close> is among the available engines: the
  fallback of the aliases \<^verbatim>\<open>hnswlib\<close> and \<^verbatim>\<open>hnsw\<close> is a branch that no run of the module
  reaches. The fallbacks for faiss and redis are reachable.
\<close>

lemma import_module_available:
  "import_module importable = Inr available_engines \<Longrightarrow>
   ''sklearn'' \<in> available_engines \<and> ''hnswlib'' \<in> available_engines
   \<and> (''faiss'' \<in> available_engines \<longleftrightarrow> ''faiss'' \<in> importable)
   \<and> (''redis'' \<in> available_engines \<longleftrightarrow> ''redis'' \<in> importable)"
  by (auto simp: import_module_def split: if_splits)

lemma import_module_without_hnswlib:
  "import_module {''numpy'', ''sklearn'', ''faiss'', ''redis''} = Inl TypeError"
  by (simp add: import_module_def)

lemma alias_is_lower_case:
  "s \<in> set [''hnswlib'', ''hnsw'', ''faiss'', ''flatfaiss'', ''redis''] \<Longrightarrow> lower s = s"
  by (auto simp: lower_def lower_char_def)

subsection \<open>Lookups by id\<close>

lemma list_index_not_mem: "i \<notin> set ids \<Longrightarrow> list_index ids i = Inl ValueError"
  by (induction ids) auto

lemma list_index_mem: "i \<in> set ids \<Longrightarrow> \<exists>j. list_index ids i = Inr j \<and> j < length ids"
  by (induction ids) auto

lemma list_index_map_of:
  "list_index ids i = Inr j \<Longrightarrow> j < length items \<Longrightarrow> map_of (zip ids items) i = Some (items ! j)"
proof (induction ids arbitrary: j items)
  case Nil
  then show ?case by simp
next
  case (Cons y ys)
  then obtain v vs where items: "items = v # vs" by (cases items) auto
  show ?case
  proof (cases "y = i")
    case True
    with Cons.prems items show ?thesis by simp
  next
    case False
    with Cons.prems obtain n where n: "list_index ys i = Inr n" "j = Suc n"
      by (auto split: sum.splits)
    with Cons.prems items have "n < length vs" by simp
    from Cons.IH [OF n(1) this] False items n show ?thesis by simp
  qed
qed

lemma SciKitNearestNeighbors_lookup_known:
  "set req \<subseteq> set (sk_ids s) \<Longrightarrow> length (sk_ids s) \<le> length (sk_items s) \<Longrightarrow>
   SciKitNearestNeighbors_lookup s req
     = Inr (map (\<lambda>i. the (map_of (zip (sk_ids s) (sk_items s)) i)) req)"
proof (induction req)
  case Nil
  then show ?case by simp
next
  case (Cons i req)
  from Cons.prems obtain j where j: "list_index (sk_ids s) i = Inr j" "j < length (sk_ids s)"
    using list_index_mem [of i "sk_ids s"] by auto
  with Cons.prems have jl: "j < length (sk_items s)" by simp
  from list_index_map_of [OF j(1) jl] j jl Cons show ?case
    by (simp add: getitem_def)
qed

lemma SciKitNearestNeighbors_lookup_unknown:
  "i \<notin> set (sk_ids s) \<Longrightarrow> SciKitNearestNeighbors_lookup s (i # req) = Inl ValueError"
  by (simp add: list_index_not_mem)

lemma map_of_zip_all:
  "distinct ids \<Longrightarrow> length ids = length data \<Longrightarrow>
   map (\<lambda>i. the (map_of (zip ids data) i)) ids = data"
  by (rule nth_equalityI) (simp_all add: map_of_zip_nth)

subsection \<open>Conversions of batches and ids\<close>

lemma np_ragged_uniform: "\<forall>v\<in>set data. length v = d \<Longrightarrow> \<not> np_ragged data"
proof (cases data)
  case Nil
  then show ?thesis
    by (simp add: np_ragged_def)
next
  case (Cons v vs)
  assume "\<forall>v\<in>set data. length v = d"
  with Cons have "\<forall>w\<in>set data. length w = length (hd data)"
    by simp
  then show ?thesis
    by (simp add: np_ragged_def list_ex_iff)
qed


lemma np_array_int64_in_range:
  "\<forall>i\<in>set ids. 0 \<le> i \<and> i < 2 ^ 63 \<Longrightarrow> np_array_int64 ids = Inr ids"
  by (auto simp: np_array_int64_def list_ex_iff)

lemma size_t_labels_in_range:
  "\<forall>i\<in>set ids. 0 \<le> i \<and> i < 2 ^ 63 \<Longrightarrow> size_t_labels ids = Inr ids"
  by (force simp: size_t_labels_def list_ex_iff)

subsection \<open>The engines store what they are given\<close>

lemma map_of_known: "i \<in> set (map fst xs) \<Longrightarrow> \<exists>v. map_of xs i = Some v"
  by (induction xs) auto

lemma map_of_rev_distinct: "distinct (map fst xs) \<Longrightarrow> map_of (rev xs) = map_of xs"
proof (induction xs)
  case Nil
  then show ?case by simp
next
  case (Cons x xs)
  obtain a b where x: "x = (a, b)" by (cases x)
  from Cons.prems x have "map_of xs a = None"
    by (simp add: map_of_eq_None_iff)
  with Cons x show ?case
    by (auto simp: map_add_def fun_eq_iff split: option.splits)
qed

lemma Index_add_points_new_labels:
  "distinct (map fst xs) \<Longrightarrow> set (map fst xs) \<inter> set (map fst (hn_elements h)) = {} \<Longrightarrow>
   length (hn_elements h) + length xs \<le> hn_capacity h \<Longrightarrow>
   Index_add_points xs h = Returns () (h\<lparr>hn_elements := hn_elements h @ xs\<rparr>)"
proof (induction xs arbitrary: h)
  case Nil
  then show ?case by simp
next
  case (Cons x xs)
  obtain label v where x: "x = (label, v)" by (cases x)
  let ?h = "h\<lparr>hn_elements := hn_elements h @ [(label, v)]\<rparr>"
  from Cons.prems x have new: "label \<notin> set (map fst (hn_elements h))" by auto
  from Cons.prems x have room: "\<not> hn_capacity h \<le> length (hn_elements h)" by simp
  from Cons.prems x have "distinct (map fst xs)"
    "set (map fst xs) \<inter> set (map fst (hn_elements ?h)) = {}"
    "length (hn_elements ?h) + length xs \<le> hn_capacity ?h"
    by auto
  from Cons.IH [OF this] new room x show ?case by simp
qed

lemma Index_get_data_known:
  "set req \<subseteq> set (map fst (hn_elements h)) \<Longrightarrow>
   Index_get_data h req = Inr (map (\<lambda>i. the (map_of (hn_elements h) i)) req)"
proof (induction req)
  case Nil
  then show ?case by simp
next
  case (Cons i req)
  then obtain v where "map_of (hn_elements h) i = Some v"
    using map_of_known [of i "hn_elements h"] by auto
  with Cons show ?case by simp
qed

lemma FaissIndexFactory_reconstruct_all_known:
  "distinct (map fst (fi_vectors ix)) \<Longrightarrow> set req \<subseteq> set (map fst (fi_vectors ix)) \<Longrightarrow>
   FaissIndexFactory_reconstruct_all ix req
     = Inr (map (\<lambda>i. the (map_of (fi_vectors ix) i)) req)"
proof (induction req)
  case Nil
  then show ?case by simp
next
  case (Cons i req)
  from Cons.prems have same: "map_of (rev (fi_vectors ix)) = map_of (fi_vectors ix)"
    by (simp add: map_of_rev_distinct)
  from Cons.prems obtain v where "map_of (fi_vectors ix) i = Some v"
    using map_of_known [of i "fi_vectors ix"] by auto
  with Cons same show ?case by (simp add: faiss_reconstruct_def)
qed

subsection \<open>Capacity management of LazyHnsw.add_items\<close>

lemma LazyHnsw_add_items_uninitialized:
  assumes "\<not> hn_index_inited h"
  shows "LazyHnsw_add_items data ids h =
    Index_add_items data ids
      (h\<lparr>hn_index_inited := True, hn_capacity := max (init_max_elements h) (length data),
          hn_M := init_M h, hn_ef_construction := init_ef_construction h, hn_cur_l := 0,
          hn_elements := []\<rparr>)"
proof -
  let ?h1 = "h\<lparr>hn_index_inited := True, hn_capacity := init_max_elements h, hn_M := init_M h,
    hn_ef_construction := init_ef_construction h, hn_cur_l := 0, hn_elements := []\<rparr>"
  let ?h2 = "h\<lparr>hn_index_inited := True, hn_capacity := max (init_max_elements h) (length data),
    hn_M := init_M h, hn_ef_construction := init_ef_construction h, hn_cur_l := 0,
    hn_elements := []\<rparr>"
  from assms have m: "max_elements h = 0"
    by (simp add: max_elements_def)
  from assms have i: "LazyHnsw_init 0 h = Returns () ?h1"
    by (simp add: LazyHnsw_init_def Index_init_index_def)
  have c: "max_elements ?h1 = init_max_elements h" "element_count ?h1 = 0"
    by (simp_all add: max_elements_def element_count_def)
  show ?thesis
  proof (cases "init_max_elements h < length data")
    case True
    from True have "length data \<noteq> 0"
      by linarith
    then have r: "Index_resize_index (length data) ?h1
      = Returns () (?h1\<lparr>hn_capacity := length data\<rparr>)"
      by (simp add: Index_resize_index_def)
    from True m i c r have "LazyHnsw_add_items data ids h
      = Index_add_items data ids (?h1\<lparr>hn_capacity := length data\<rparr>)"
      by (simp add: LazyHnsw_add_items_def max_def)
    also have "?h1\<lparr>hn_capacity := length data\<rparr> = ?h2"
      using True by (cases h) (simp add: max_def)
    finally show ?thesis .
  next
    case False
    with m i c have "LazyHnsw_add_items data ids h = Index_add_items data ids ?h1"
      by (simp add: LazyHnsw_add_items_def)
    also have "?h1 = ?h2"
      using False by (simp add: max_def)
    finally show ?thesis .
  qed
qed

lemma LazyHnsw_add_items_allocated:
  assumes "max_elements h \<noteq> 0"
  shows "LazyHnsw_add_items data ids h =
    Index_add_items data ids
      (h\<lparr>hn_capacity := max (max_elements h) (element_count h + length data)\<rparr>)"
proof -
  from assms have i: "hn_index_inited h" and m: "max_elements h = hn_capacity h"
    by (simp_all add: max_elements_def split: if_splits)
  from i have e: "element_count h = length (hn_elements h)"
    by (simp add: element_count_def)
  show ?thesis
  proof (cases "hn_capacity h < length data + length (hn_elements h)")
    case True
    let ?n = "length data + length (hn_elements h)"
    from True have "?n \<noteq> 0"
      by linarith
    then have "Index_resize_index ?n h = Returns () (h\<lparr>hn_capacity := ?n\<rparr>)"
      using i by (simp add: Index_resize_index_def)
    with True assms i m e show ?thesis
      by (simp add: LazyHnsw_add_items_def max_def add.commute)
  next
    case False
    with assms i m e show ?thesis
      by (simp add: LazyHnsw_add_items_def max_def add.commute)
  qed
qed

subsection \<open>Round trip through insertion\<close>

lemma SciKitNearestNeighbors_round_trip:
  assumes "distinct ids" and "length ids = length data"
    and "sk_items s = []" and "sk_ids s = []"
  shows "\<exists>s1. SciKitNearestNeighbors_add_items data (Some ids) s = Returns () s1
     \<and> SciKitNearestNeighbors_get_current_count s1 = int (length data)
     \<and> (\<forall>req. set req \<subseteq> set ids \<longrightarrow>
           SciKitNearestNeighbors_get_items (Some req) s1
             = Inr (map (\<lambda>i. the (map_of (zip ids data) i)) req))"
proof -
  let ?s1 = "s\<lparr>sk_items := data, sk_ids := ids, sk_fitted := False\<rparr>"
  from assms(3,4) have add: "SciKitNearestNeighbors_add_items data (Some ids) s = Returns () ?s1"
    by (simp add: SciKitNearestNeighbors_add_items_def)
  have stored: "sk_items ?s1 = data" "sk_ids ?s1 = ids"
    by simp_all
  have count: "SciKitNearestNeighbors_get_current_count ?s1 = int (length data)"
    by (simp add: SciKitNearestNeighbors_get_current_count_def)
  have get: "SciKitNearestNeighbors_get_items (Some req) ?s1
      = Inr (map (\<lambda>i. the (map_of (zip ids data) i)) req)"
    if "set req \<subseteq> set ids" for req
    using SciKitNearestNeighbors_lookup_known [of req ?s1] that assms(2)
    unfolding stored by (simp add: SciKitNearestNeighbors_get_items_def)
  from add count get show ?thesis by blast
qed

lemma FaissIndexFactory_init_fresh:
  "fst (FaissIndexFactory_init builds space dim index_factory) = Inr f \<Longrightarrow>
   fi_vectors (fa_index f) = [] \<and> fi_d (fa_index f) = dim"
  by (auto simp: FaissIndexFactory_init_def faiss_IndexIDMap2_def faiss_index_factory_def
      Let_def split: if_splits option.splits)

lemma FaissIndexFactory_round_trip:
  assumes "distinct ids" and "length ids = length data"
    and "fst (FaissIndexFactory_init builds space dim index_factory) = Inr f"
    and "fi_is_trained (fa_index f)"
    and "\<forall>v\<in>set data. length v = dim"
    and "data \<noteq> []"
    and "\<forall>i\<in>set ids. 0 \<le> i \<and> i < 2 ^ 63"
  shows "\<exists>f1. FaissIndexFactory_add_items data ids f = Returns () f1
     \<and> FaissIndexFactory_get_current_count f1 = int (length data)
     \<and> (\<forall>req. req \<noteq> [] \<and> set req \<subseteq> set ids \<longrightarrow>
           FaissIndexFactory_get_items req f1
             = Inr (map (\<lambda>i. the (map_of (zip ids data) i)) req))"
proof -
  let ?f1 = "f\<lparr>fa_index := (fa_index f)\<lparr>fi_vectors := zip ids data\<rparr>\<rparr>"
  from FaissIndexFactory_init_fresh [OF assms(3)]
  have fresh: "fi_vectors (fa_index f) = []" "fi_d (fa_index f) = dim"
    by simp_all
  from np_ragged_uniform [OF assms(5)] have x: "np_array_float32 data = Inr data"
    by (simp add: np_array_float32_def)
  from assms(7) have l: "np_array_int64 ids = Inr ids"
    by (rule np_array_int64_in_range)
  from assms(5,6) fresh have d: "length (hd data) = fi_d (fa_index f)"
    by (cases data) simp_all
  from assms(2,4,6) d fresh have "faiss_add_with_ids data ids (fa_index f)
    = Inr ((fa_index f)\<lparr>fi_vectors := zip ids data\<rparr>)"
    by (simp add: faiss_add_with_ids_def)
  with x l have add: "FaissIndexFactory_add_items data ids f = Returns () ?f1"
    by (simp add: FaissIndexFactory_add_items_def)
  have stored: "fi_vectors (fa_index ?f1) = zip ids data"
    by simp
  from assms(2) have count: "FaissIndexFactory_get_current_count ?f1 = int (length data)"
    by (simp add: FaissIndexFactory_get_current_count_def faiss_ntotal_def)
  have get: "FaissIndexFactory_get_items req ?f1
      = Inr (map (\<lambda>i. the (map_of (zip ids data) i)) req)"
    if "req \<noteq> []" "set req \<subseteq> set ids" for req
    using FaissIndexFactory_reconstruct_all_known [of "fa_index ?f1" req] that assms(1,2)
    unfolding stored by (simp add: FaissIndexFactory_get_items_def np_vstack_def)
  from add count get show ?thesis by blast
qed

lemma LazyHnsw_new_fresh:
  "LazyHnsw_new space dim max_elements_arg ef_construction_arg M_arg = Inr h \<Longrightarrow>
   \<not> hn_index_inited h \<and> hn_dim h = dim"
  by (auto simp: LazyHnsw_new_def Index_new_def hnsw_index.extend_def split: if_splits)

lemma LazyHnsw_round_trip:
  assumes "distinct ids" and "length ids = length data"
    and "LazyHnsw_new space dim max_elements_arg ef_construction_arg M_arg = Inr h"
    and "\<forall>v\<in>set data. length v = dim"
    and "data \<noteq> []"
    and "\<forall>i\<in>set ids. 0 \<le> i \<and> i < 2 ^ 63"
  shows "\<exists>h1. LazyHnsw_add_items data (Some ids) h = Returns () h1
     \<and> LazyHnsw_get_current_count h1 = int (length data)
     \<and> (\<forall>req. set req \<subseteq> set ids \<longrightarrow>
           LazyHnsw_get_items (Some req) h1
             = Inr (map (\<lambda>i. the (map_of (zip ids data) i)) req))"
proof -
  let ?h2 = "h\<lparr>hn_index_inited := True, hn_capacity := max (init_max_elements h) (length data),
    hn_M := init_M h, hn_ef_construction := init_ef_construction h, hn_cur_l := 0,
    hn_elements := []\<rparr>"
  let ?h3 = "?h2\<lparr>hn_elements := zip ids data, hn_cur_l := length data\<rparr>"
  from LazyHnsw_new_fresh [OF assms(3)] have fresh: "\<not> hn_index_inited h" "hn_dim h = dim"
    by simp_all
  from assms(4) have nr: "\<not> np_ragged data"
    by (rule np_ragged_uniform)
  from assms(4,5) fresh have d: "length (hd data) = hn_dim ?h2"
    by (cases data) simp_all
  from assms(6) have l: "size_t_labels ids = Inr ids"
    by (rule size_t_labels_in_range)
  from assms(1,2) have "Index_add_points (zip ids data) ?h2
      = Returns () (?h2\<lparr>hn_elements := hn_elements ?h2 @ zip ids data\<rparr>)"
    by (intro Index_add_points_new_labels) simp_all
  with nr d l assms(2,5) have "Index_add_items data (Some ids) ?h2 = Returns () ?h3"
    by (simp add: Index_add_items_def)
  then have add: "LazyHnsw_add_items data (Some ids) h = Returns () ?h3"
    unfolding LazyHnsw_add_items_uninitialized [OF fresh(1)] .
  from assms(2) have count: "LazyHnsw_get_current_count ?h3 = int (length data)"
    by (simp add: LazyHnsw_get_current_count_def element_count_def)
  have stored: "hn_elements ?h3 = zip ids data"
    by simp
  from assms(5) have al: "max_elements ?h3 \<noteq> 0"
    by (simp add: max_elements_def max_def)
  have get: "LazyHnsw_get_items (Some req) ?h3
      = Inr (map (\<lambda>i. the (map_of (zip ids data) i)) req)"
    if "set req \<subseteq> set ids" for req
  proof -
    from that assms(6) have "\<forall>i\<in>set req. 0 \<le> i \<and> i < 2 ^ 63"
      by blast
    then have "size_t_labels req = Inr req"
      by (rule size_t_labels_in_range)
    with al Index_get_data_known [of req ?h3] that assms(2) show ?thesis
      unfolding stored by (simp add: LazyHnsw_get_items_def Index_get_items_def)
  qed
  from add count get show ?thesis by blast
qed

subsection \<open>Vectors of the wrong length\<close>


lemma LazyHnsw_add_items_already_initialized:
  "hn_index_inited h \<Longrightarrow> max_elements h = 0 \<Longrightarrow>
   LazyHnsw_add_items data ids h = Raises RuntimeError h"
  by (simp add: LazyHnsw_add_items_def LazyHnsw_init_def Index_init_index_def)


lemma Index_add_items_empty_batch:
  "hn_index_inited h \<Longrightarrow> hn_dim h \<noteq> 0 \<Longrightarrow> Index_add_items [] ids h = Raises RuntimeError h"
  by (simp add: Index_add_items_def np_ragged_def)

lemma LazyHnsw_add_items_empty_batch:
  assumes "hn_dim h \<noteq> 0"
  shows "\<exists>h'. LazyHnsw_add_items [] ids h = Raises RuntimeError h'
     \<and> element_count h' = element_count h"
proof -
  consider (fresh) "\<not> hn_index_inited h"
    | (empty) "hn_index_inited h" "max_elements h = 0"
    | (allocated) "max_elements h \<noteq> 0"
    by blast
  then show ?thesis
  proof cases
    case fresh
    let ?h2 = "h\<lparr>hn_index_inited := True,
      hn_capacity := max (init_max_elements h) (length ([] :: 'a list list)), hn_M := init_M h,
      hn_ef_construction := init_ef_construction h, hn_cur_l := 0, hn_elements := []\<rparr>"
    from assms have "Index_add_items [] ids ?h2 = Raises RuntimeError ?h2"
      by (intro Index_add_items_empty_batch) simp_all
    then have "LazyHnsw_add_items [] ids h = Raises RuntimeError ?h2"
      unfolding LazyHnsw_add_items_uninitialized [OF fresh] .
    moreover from fresh have "element_count ?h2 = element_count h"
      by (simp add: element_count_def)
    ultimately show ?thesis by blast
  next
    case empty
    from LazyHnsw_add_items_already_initialized [OF empty] show ?thesis
      by auto
  next
    case allocated
    let ?h2 = "h\<lparr>hn_capacity :=
      max (max_elements h) (element_count h + length ([] :: 'a list list))\<rparr>"
    from allocated have i: "hn_index_inited h"
      by (simp add: max_elements_def split: if_splits)
    with assms have "Index_add_items [] ids ?h2 = Raises RuntimeError ?h2"
      by (intro Index_add_items_empty_batch) simp_all
    then have "LazyHnsw_add_items [] ids h = Raises RuntimeError ?h2"
      unfolding LazyHnsw_add_items_allocated [OF allocated] .
    moreover have "element_count ?h2 = element_count h"
      by (simp add: element_count_def)
    ultimately show ?thesis by blast
  qed
qed

lemma Index_add_items_bad_label:
  assumes "hn_index_inited h" and "\<not> np_ragged data" and "data \<noteq> []"
    and "length (hd data) = hn_dim h" and "\<exists>i\<in>set ids. i < 0 \<or> 2 ^ 64 \<le> i"
  shows "Index_add_items data (Some ids) h = Raises OverflowError h"
  using assms by (simp add: Index_add_items_def size_t_labels_def list_ex_iff)

lemma LazyHnsw_add_items_bad_label:
  assumes "\<not> np_ragged data" and "data \<noteq> []"
    and "length (hd data) = hn_dim h" and "\<exists>i\<in>set ids. i < 0 \<or> 2 ^ 64 \<le> i"
    and "\<not> hn_index_inited h \<or> max_elements h \<noteq> 0"
  shows "\<exists>h'. LazyHnsw_add_items data (Some ids) h = Raises OverflowError h'
     \<and> element_count h' = element_count h"
proof (cases "hn_index_inited h")
  case False
  let ?h2 = "h\<lparr>hn_index_inited := True,
    hn_capacity := max (init_max_elements h) (length data), hn_M := init_M h,
    hn_ef_construction := init_ef_construction h, hn_cur_l := 0, hn_elements := []\<rparr>"
  from assms(1-4) have "Index_add_items data (Some ids) ?h2 = Raises OverflowError ?h2"
    by (intro Index_add_items_bad_label) simp_all
  then have "LazyHnsw_add_items data (Some ids) h = Raises OverflowError ?h2"
    unfolding LazyHnsw_add_items_uninitialized [OF False] .
  moreover from False have "element_count ?h2 = element_count h"
    by (simp add: element_count_def)
  ultimately show ?thesis by blast
next
  case True
  with assms(5) have al: "max_elements h \<noteq> 0"
    by simp
  let ?h2 = "h\<lparr>hn_capacity := max (max_elements h) (element_count h + length data)\<rparr>"
  from True assms(1-4) have "Index_add_items data (Some ids) ?h2 = Raises OverflowError ?h2"
    by (intro Index_add_items_bad_label) simp_all
  then have "LazyHnsw_add_items data (Some ids) h = Raises OverflowError ?h2"
    unfolding LazyHnsw_add_items_allocated [OF al] .
  moreover have "element_count ?h2 = element_count h"
    by (simp add: element_count_def)
  ultimately show ?thesis by blast
qed

subsection \<open>Monotonicity of the capacity\<close>

lemma Index_add_points_keeps_capacity:
  "hn_capacity (state_of (Index_add_points xs h)) = hn_capacity h
   \<and> hn_index_inited (state_of (Index_add_points xs h)) = hn_index_inited h"
proof (induction xs arbitrary: h)
  case Nil
  then show ?case by simp
next
  case (Cons x xs)
  obtain label v where x: "x = (label, v)" by (cases x)
  show ?case
    unfolding x by (simp add: Cons.IH)
qed

lemma Index_add_items_keeps_capacity:
  "max_elements (state_of (Index_add_items data ids h)) = max_elements h"
proof -
  have k: "max_elements (state_of
      (case Index_add_points xs h of
         Raises e h1 \<Rightarrow> Raises e h1
       | Returns u h1 \<Rightarrow> Returns () (h1\<lparr>hn_cur_l := hn_cur_l h1 + n\<rparr>))) = max_elements h"
    for xs n
    using Index_add_points_keeps_capacity [of xs h]
    by (cases "Index_add_points xs h") (auto simp: max_elements_def)
  show ?thesis
    by (simp add: Index_add_items_def Let_def k del: Index_add_points.simps
        split: option.split sum.split)
qed

lemma LazyHnsw_add_items_grows:
  "max_elements h \<le> max_elements (state_of (LazyHnsw_add_items data ids h))"
proof (cases "max_elements h = 0")
  case True
  then show ?thesis by simp
next
  case False
  then have i: "hn_index_inited h"
    by (simp add: max_elements_def split: if_splits)
  have "max_elements (state_of (LazyHnsw_add_items data ids h))
    = max_elements (h\<lparr>hn_capacity := max (max_elements h) (element_count h + length data)\<rparr>)"
    unfolding LazyHnsw_add_items_allocated [OF False]
    by (rule Index_add_items_keeps_capacity)
  with i show ?thesis
    by (simp add: max_elements_def)
qed

lemma LazyHnsw_call_grows:
  assumes "\<not> shrinking c h"
  shows "max_elements h \<le> max_elements (LazyHnsw_call c h)"
proof (cases "max_elements h = 0")
  case True
  then show ?thesis by simp
next
  case False
  then have i: "hn_index_inited h"
    by (simp add: max_elements_def split: if_splits)
  show ?thesis
  proof (cases c)
    case (Op_init n)
    with i show ?thesis
      by (simp add: LazyHnsw_init_def Index_init_index_def)
  next
    case (Op_add_items data ids)
    then show ?thesis
      by (simp add: LazyHnsw_add_items_grows)
  next
    case (Op_add data)
    then show ?thesis
      by (simp add: LazyHnsw_add_def LazyHnsw_add_items_grows)
  next
    case (Op_resize_index n)
    with assms False i show ?thesis
      by (simp add: LazyHnsw_resize_index_def Index_resize_index_def max_elements_def)
  next
    case (Op_set_ef ef)
    with False show ?thesis
      by (simp add: LazyHnsw_set_ef_def Index_set_ef_def max_elements_def)
  qed simp_all
qed

lemma LazyHnsw_capacities_head:
  "\<exists>rest. LazyHnsw_capacities cs h = LazyHnsw_get_max_elements h # rest"
  by (cases cs) simp_all

lemma LazyHnsw_capacities_sorted:
  "no_shrinking_resize cs h \<Longrightarrow> sorted (LazyHnsw_capacities cs h)"
proof (induction cs arbitrary: h)
  case Nil
  then show ?case by simp
next
  case (Cons c cs)
  then have c: "\<not> shrinking c h" and rest: "no_shrinking_resize cs (LazyHnsw_call c h)"
    by simp_all
  obtain tail where t: "LazyHnsw_capacities cs (LazyHnsw_call c h)
      = LazyHnsw_get_max_elements (LazyHnsw_call c h) # tail"
    using LazyHnsw_capacities_head by blast
  from LazyHnsw_call_grows [OF c]
  have "LazyHnsw_get_max_elements h \<le> LazyHnsw_get_max_elements (LazyHnsw_call c h)"
    by (simp add: LazyHnsw_get_max_elements_def)
  moreover from Cons.IH [OF rest] t
  have "sorted (LazyHnsw_get_max_elements (LazyHnsw_call c h) # tail)"
    by simp
  ultimately show ?case
    using t by fastforce
qed

subsection \<open>The write batch of the redis adapter\<close>

lemma str_int_1: "str_int 1 = ''1''"
  by (simp add: str_int_def str_nat.simps)

lemma str_int_2: "str_int 2 = ''2''"
  by (simp add: str_int_def str_nat.simps)

lemma item_hset_eq:
  "item_hset tobytes part
     = (\<lambda>(datum, i). (''item:'' @ str_int i,
          \<lparr>h_embedding = projr (tobytes datum), h_item_id = str_int i, h_partition = part\<rparr>))"
  by (auto simp: item_hset_def fun_eq_iff)


lemma RedisIndex_queue_items_eq:
  "RedisIndex_queue_items tobytes part xs p =
     (if list_all (encodable tobytes) xs then
        Returns ()
          (p\<lparr>pl_command_stack := pl_command_stack p @ map (item_hset tobytes part) xs\<rparr>)
      else
        Raises (projl (tobytes (fst (hd (dropWhile (encodable tobytes) xs)))))
          (p\<lparr>pl_command_stack := pl_command_stack p
               @ map (item_hset tobytes part) (takeWhile (encodable tobytes) xs)\<rparr>))"
proof (induction xs arbitrary: p)
  case Nil
  then show ?case by simp
next
  case (Cons x xs)
  obtain datum i where x: "x = (datum, i)" by (cases x)
  have enc: "encodable tobytes (datum, i) \<longleftrightarrow> \<not> isl (tobytes datum)"
    by (simp add: encodable_def)
  have cmd: "item_hset tobytes part (datum, i)
    = (''item:'' @ str_int i,
       \<lparr>h_embedding = projr (tobytes datum), h_item_id = str_int i, h_partition = part\<rparr>)"
    by (simp add: item_hset_def)
  show ?case
  proof (cases "tobytes datum")
    case (Inl e)
    with x enc show ?thesis
      by simp
  next
    case (Inr b)
    with x enc cmd show ?thesis
      by (simp add: Cons.IH pipeline_hset_def)
  qed
qed

lemma RedisIndex_add_items_eq:
  "RedisIndex_add_items tobytes data (Some id_list) partition_arg r =
     (let part = (case partition_arg of None \<Rightarrow> '''' | Some s \<Rightarrow> s);
          xs = zip data id_list;
          cmds = map (item_hset tobytes part) xs
      in if \<not> list_all (encodable tobytes) xs then
           Raises (projl (tobytes (fst (hd (dropWhile (encodable tobytes) xs)))))
             (r\<lparr>rd_pipe := Some \<lparr>pl_transaction = False,
                    pl_command_stack =
                      map (item_hset tobytes part) (takeWhile (encodable tobytes) xs)\<rparr>\<rparr>)
         else if list_all (permitted (rd_redis r)) cmds then
           Returns () (r\<lparr>rd_redis := fold server_hset cmds (rd_redis r), rd_pipe := None\<rparr>)
         else
           Raises ResponseError
             (r\<lparr>rd_redis := fold server_hset (filter (permitted (rd_redis r)) cmds) (rd_redis r),
                 rd_pipe := Some (Redis_pipeline False)\<rparr>))"
  by (cases r)
    (simp add: RedisIndex_add_items_def RedisIndex_queue_items_eq Let_def Redis_pipeline_def
      pipeline_execute_def pipeline_reset_def)

lemma RedisIndex_add_items_Returns:
  assumes "RedisIndex_add_items tobytes data (Some id_list) partition_arg r = Returns u r'"
  shows "list_all (encodable tobytes) (zip data id_list)"
    and "list_all (permitted (rd_redis r))
      (map (item_hset tobytes (case partition_arg of None \<Rightarrow> '''' | Some s \<Rightarrow> s))
         (zip data id_list))"
    and "r' = r\<lparr>rd_redis := fold server_hset
        (map (item_hset tobytes (case partition_arg of None \<Rightarrow> '''' | Some s \<Rightarrow> s))
           (zip data id_list)) (rd_redis r), rd_pipe := None\<rparr>"
  using assms unfolding RedisIndex_add_items_eq Let_def by (simp_all split: if_splits)

lemma hashes_fold_server_hset:
  "hashes (fold server_hset cmds srv) = hashes srv ++ map_of (rev cmds)"
proof (induction cmds arbitrary: srv)
  case Nil
  then show ?case by simp
next
  case (Cons c cs)
  obtain k v where c: "c = (k, v)" by (cases c)
  have step: "hashes (server_hset c srv) = (hashes srv)(k \<mapsto> v)"
    by (simp add: c server_hset_def)
  have "hashes (fold server_hset (c # cs) srv)
    = hashes (server_hset c srv) ++ map_of (rev cs)"
    by (simp add: Cons.IH)
  also note step
  also have "(hashes srv)(k \<mapsto> v) ++ map_of (rev cs) = hashes srv ++ map_of (rev (c # cs))"
    by (auto simp: c map_add_def fun_eq_iff split: option.splits)
  finally show ?case .
qed

lemma ft_index_fold_server_hset: "ft_index (fold server_hset cmds srv) = ft_index srv"
  by (induction cmds arbitrary: srv) (simp_all add: server_hset_def)

subsection \<open>Keys of the redis adapter\<close>

lemma digit_inj:
  "n < 10 \<Longrightarrow> m < 10 \<Longrightarrow> ''0123456789'' ! n = ''0123456789'' ! m \<Longrightarrow> n = m"
proof -
  assume "n < 10" "m < 10" "''0123456789'' ! n = ''0123456789'' ! m"
  moreover have "distinct ''0123456789''" by simp
  moreover have "length ''0123456789'' = 10" by simp
  ultimately show "n = m"
    by (simp add: nth_eq_iff_index_eq)
qed

lemma str_nat_not_empty: "str_nat n \<noteq> []"
  by (subst str_nat.simps) simp

lemma str_nat_digits: "set (str_nat n) \<subseteq> set ''0123456789''"
proof (induction n rule: str_nat.induct)
  case (1 n)
  have d: "''0123456789'' ! k \<in> set ''0123456789''" if "k < 10" for k
    using that by (intro nth_mem) simp
  show ?case
  proof (cases "n < 10")
    case True
    with d [of n] show ?thesis
      by (subst str_nat.simps) simp
  next
    case False
    with "1.IH" d [of "n mod 10"] show ?thesis
      by (subst str_nat.simps) simp
  qed
qed

lemma str_nat_inj: "str_nat n = str_nat m \<Longrightarrow> n = m"
proof (induction n arbitrary: m rule: str_nat.induct)
  case (1 n)
  show ?case
  proof (cases "n < 10")
    case n: True
    show ?thesis
    proof (cases "m < 10")
      case True
      with n "1.prems" have "''0123456789'' ! n = ''0123456789'' ! m"
        by (simp add: str_nat.simps [of n] str_nat.simps [of m])
      with n True show ?thesis by (rule digit_inj)
    next
      case False
      with n "1.prems" have "str_nat (m div 10) = []"
        by (simp add: str_nat.simps [of n] str_nat.simps [of m] Cons_eq_append_conv)
      with str_nat_not_empty show ?thesis by blast
    qed
  next
    case n: False
    show ?thesis
    proof (cases "m < 10")
      case True
      with n "1.prems" have "str_nat (n div 10) = []"
        by (simp add: str_nat.simps [of n] str_nat.simps [of m] append_eq_Cons_conv)
      with str_nat_not_empty show ?thesis by blast
    next
      case False
      with n "1.prems" have eq: "str_nat (n div 10) = str_nat (m div 10)"
        "''0123456789'' ! (n mod 10) = ''0123456789'' ! (m mod 10)"
        by (simp_all add: str_nat.simps [of n] str_nat.simps [of m])
      from "1.IH" [OF n eq(1)] have "n div 10 = m div 10" .
      moreover from eq(2) have "n mod 10 = m mod 10"
        by (intro digit_inj) simp_all
      ultimately show ?thesis
        by (metis div_mult_mod_eq)
    qed
  qed
qed

lemma str_int_inj: "str_int i = str_int j \<Longrightarrow> i = j"
proof -
  assume eq: "str_int i = str_int j"
  have minus: "CHR ''-'' \<notin> set (str_nat k)" for k
    using str_nat_digits [of k] by auto
  have pos: "hd (str_nat k) \<noteq> CHR ''-''" for k
    using minus [of k] str_nat_not_empty [of k] by (cases "str_nat k") auto
  consider "i < 0" "j < 0" | "i < 0" "\<not> j < 0" | "\<not> i < 0" "j < 0" | "\<not> i < 0" "\<not> j < 0"
    by blast
  then show "i = j"
  proof cases
    case 1
    with eq have "nat (- i) = nat (- j)"
      by (simp add: str_int_def str_nat_inj)
    with 1 show ?thesis by simp
  next
    case 2
    with eq have "hd (str_nat (nat j)) = CHR ''-''"
      by (auto simp: str_int_def dest: arg_cong [where f = hd])
    with pos show ?thesis by blast
  next
    case 3
    with eq have "hd (str_nat (nat i)) = CHR ''-''"
      by (auto simp: str_int_def dest: arg_cong [where f = hd])
    with pos show ?thesis by blast
  next
    case 4
    with eq have "nat i = nat j"
      by (simp add: str_int_def str_nat_inj)
    with 4 show ?thesis by simp
  qed
qed

lemma item_key_inj: "inj (\<lambda>i. ''item:'' @ str_int i)"
  by (rule injI) (simp add: str_int_inj)

lemma RedisIndex_round_trip:
  assumes "distinct id_list" and "length id_list = length data"
    and "RedisIndex_add_items tobytes data (Some id_list) partition_arg r = Returns u r'"
  shows "RedisIndex_get_items (Some id_list) r'
    = Inr (map (\<lambda>datum. Some (projr (tobytes datum))) data)"
proof -
  let ?part = "case partition_arg of None \<Rightarrow> '''' | Some s \<Rightarrow> s"
  let ?key = "\<lambda>i. ''item:'' @ str_int i"
  let ?hash = "\<lambda>datum i. \<lparr>h_embedding = projr (tobytes datum), h_item_id = str_int i,
    h_partition = ?part\<rparr>"
  let ?cmds = "map (\<lambda>(datum, i). (?key i, ?hash datum i)) (zip data id_list)"
  let ?vals = "map (\<lambda>(datum, i). ?hash datum i) (zip data id_list)"
  from RedisIndex_add_items_Returns(3) [OF assms(3)]
  have store: "hashes (rd_redis r') = hashes (rd_redis r) ++ map_of (rev ?cmds)"
    by (simp add: hashes_fold_server_hset item_hset_eq)
  from assms(2) have keys: "map fst ?cmds = map ?key id_list"
    by (induction data id_list rule: list_induct2') simp_all
  from assms(1) have dk: "distinct (map ?key id_list)"
    by (simp add: distinct_map inj_on_def str_int_inj)
  with keys have same: "map_of (rev ?cmds) = map_of ?cmds"
    by (simp add: map_of_rev_distinct)
  from assms(2) have z: "?cmds = zip (map ?key id_list) ?vals"
    by (induction data id_list rule: list_induct2') simp_all
  have lv: "length ?vals = length data"
    using assms(2) by simp
  have at: "server_hget_embedding (rd_redis r') (?key (id_list ! k))
      = Some (projr (tobytes (data ! k)))" if k: "k < length data" for k
  proof -
    from k assms(2) lv dk
    have "map_of (zip (map ?key id_list) ?vals) (map ?key id_list ! k) = Some (?vals ! k)"
      by (intro map_of_zip_nth) simp_all
    moreover from k assms(2) have "map ?key id_list ! k = ?key (id_list ! k)"
      by simp
    moreover from k assms(2) have "?vals ! k = ?hash (data ! k) (id_list ! k)"
      by simp
    ultimately have "map_of ?cmds (?key (id_list ! k)) = Some (?hash (data ! k) (id_list ! k))"
      unfolding z by simp
    then show ?thesis
      unfolding server_hget_embedding_def store same by (simp add: map_add_def)
  qed
  have "map (\<lambda>i. server_hget_embedding (rd_redis r') (?key i)) id_list
    = map (\<lambda>datum. Some (projr (tobytes datum))) data"
    using assms(2) at by (intro nth_equalityI) simp_all
  then show ?thesis
    by (simp add: RedisIndex_get_items_def)
qed

lemma RedisIndex_get_items_empty_server:
  "hashes (rd_redis r) = Map.empty \<Longrightarrow>
   RedisIndex_get_items (Some id_list) r = Inr (map (\<lambda>i. None) id_list)"
  by (simp add: RedisIndex_get_items_def server_hget_embedding_def)

section \<open>The claims of the specification\<close>

subsection \<open>Backend selection falls back to the reference adapter\<close>

text \<open>
  Claim C1. Backend selection is total and falls back silently: every name resolves to an
  adapter class. A known alias whose engine is available resolves to that engine's
  adapter; a known alias whose engine is unavailable, and every other name, resolves to
  the reference adapter \<^verbatim>\<open>SciKitNearestNeighbors\<close>.
\<close>

theorem parse_server_name_total_with_fallback:
  "(sname \<in> {''hnswlib'', ''hnsw''} \<and> ''hnswlib'' \<in> available_engines
      \<longrightarrow> parse_server_name available_engines sname = LazyHnsw)
   \<and> (sname \<in> {''faiss'', ''flatfaiss''} \<and> ''faiss'' \<in> available_engines
      \<longrightarrow> parse_server_name available_engines sname = FaissIndexFactory)
   \<and> (sname = ''redis'' \<and> ''redis'' \<in> available_engines
      \<longrightarrow> parse_server_name available_engines sname = RedisIndex)
   \<and> (sname \<in> {''hnswlib'', ''hnsw''} \<and> ''hnswlib'' \<notin> available_engines
      \<longrightarrow> parse_server_name available_engines sname = SciKitNearestNeighbors)
   \<and> (sname \<in> {''faiss'', ''flatfaiss''} \<and> ''faiss'' \<notin> available_engines
      \<longrightarrow> parse_server_name available_engines sname = SciKitNearestNeighbors)
   \<and> (sname = ''redis'' \<and> ''redis'' \<notin> available_engines
      \<longrightarrow> parse_server_name available_engines sname = SciKitNearestNeighbors)
   \<and> (sname \<notin> {''hnswlib'', ''hnsw'', ''faiss'', ''flatfaiss'', ''redis''}
      \<longrightarrow> parse_server_name available_engines sname = SciKitNearestNeighbors)
   \<and> parse_server_name available_engines sname
        \<in> {LazyHnsw, FaissIndexFactory, RedisIndex, SciKitNearestNeighbors}"
  by (auto simp: parse_server_name_def)

theorem parse_server_name_total_with_fallback_witness:
  "parse_server_name {''sklearn'', ''hnswlib''} ''hnsw'' = LazyHnsw
   \<and> parse_server_name {''sklearn'', ''hnswlib''} ''faiss'' = SciKitNearestNeighbors
   \<and> parse_server_name {''sklearn'', ''hnswlib'', ''faiss'', ''redis''} ''annoy''
        = SciKitNearestNeighbors"
proof -
  note t = parse_server_name_total_with_fallback
  have a: "''hnsw'' \<in> {''hnswlib'', ''hnsw''} \<and> ''hnswlib'' \<in> {''sklearn'', ''hnswlib''}"
    by simp
  have b: "''faiss'' \<in> {''faiss'', ''flatfaiss''} \<and> ''faiss'' \<notin> {''sklearn'', ''hnswlib''}"
    by simp
  have c: "''annoy'' \<notin> {''hnswlib'', ''hnsw'', ''faiss'', ''flatfaiss'', ''redis''}"
    by simp
  note h1 = t [of "''hnsw''" "{''sklearn'', ''hnswlib''}", THEN conjunct1, THEN mp, OF a]
  note h2 = t [of "''faiss''" "{''sklearn'', ''hnswlib''}", THEN conjunct2, THEN conjunct2,
      THEN conjunct2, THEN conjunct2, THEN conjunct1, THEN mp, OF b]
  note h3 = t [of "''annoy''" "{''sklearn'', ''hnswlib'', ''faiss'', ''redis''}",
      THEN conjunct2, THEN conjunct2, THEN conjunct2, THEN conjunct2, THEN conjunct2,
      THEN conjunct2, THEN conjunct1, THEN mp, OF c]
  show ?thesis
    by (intro conjI) (rule h1, rule h2, rule h3)
qed

subsection \<open>Reads on an index that holds nothing\<close>

text \<open>
  Claim C2, as the specification states it: on an index that holds nothing, every adapter
  answers \<^verbatim>\<open>get_items\<close> with an empty result and does not raise. On the reference
  adapter \<^verbatim>\<open>self.ids.index(i)\<close> raises \<^verbatim>\<open>ValueError\<close> for an id that was never inserted.
\<close>

theorem uninitialized_get_items_counterexample:
  "SciKitNearestNeighbors_get_items (Some [1])
       (fst (SciKitNearestNeighbors_init ''l2'' 4 :: int scikit_nearest_neighbors \<times> string list))
     = Inl ValueError
   \<and> SciKitNearestNeighbors_get_items (Some [1])
       (fst (SciKitNearestNeighbors_init ''l2'' 4 :: int scikit_nearest_neighbors \<times> string list))
     \<noteq> Inr []"
  by (simp add: SciKitNearestNeighbors_get_items_def SciKitNearestNeighbors_init_def)

text \<open>
  Claim C2, amended. On an index that holds nothing:
  \<^item> the hnswlib adapter, while the engine is not initialised, answers
    \<^verbatim>\<open>get_current_count\<close> with 0, \<^verbatim>\<open>search\<close> with a pair of empty lists and \<^verbatim>\<open>get_items\<close>
    with the empty list, and raises in none of them;
  \<^item> the reference adapter answers \<^verbatim>\<open>get_current_count\<close> with 0 and \<^verbatim>\<open>get_items([])\<close> with
    the empty list; \<^verbatim>\<open>get_items\<close> of a non-empty list of ids raises \<^verbatim>\<open>ValueError\<close>, and
    \<^verbatim>\<open>search\<close> raises the \<^verbatim>\<open>ValueError\<close> of fitting the engine on no samples;
  \<^item> the faiss adapter answers \<^verbatim>\<open>get_current_count\<close> with 0; \<^verbatim>\<open>get_items\<close> raises
    (\<^verbatim>\<open>ValueError\<close> of \<^verbatim>\<open>np.vstack\<close> for no ids, \<^verbatim>\<open>RuntimeError\<close> of \<^verbatim>\<open>reconstruct\<close>
    otherwise);
  \<^item> the redis adapter's \<^verbatim>\<open>get_current_count\<close> raises \<^verbatim>\<open>NotImplementedError\<close>; its
    \<^verbatim>\<open>get_items\<close> on a server without items returns one null slot per requested id.
\<close>

theorem uninitialized_index_reads:
  "(\<not> hn_index_inited h \<longrightarrow>
      LazyHnsw_get_current_count h = 0
      \<and> LazyHnsw_search Index_knn_query queries k h = Inr ([], [])
      \<and> LazyHnsw_get_items ids h = Inr [])
   \<and> (s = fst (SciKitNearestNeighbors_init space dim) \<longrightarrow>
      SciKitNearestNeighbors_get_current_count s = 0
      \<and> SciKitNearestNeighbors_get_items (Some []) s = Inr []
      \<and> SciKitNearestNeighbors_get_items (Some (i # rest)) s = Inl ValueError
      \<and> SciKitNearestNeighbors_search kneighbors queries k s = Raises ValueError s)
   \<and> (fst (FaissIndexFactory_init builds space dim index_factory) = Inr f \<longrightarrow>
      FaissIndexFactory_get_current_count f = 0
      \<and> FaissIndexFactory_get_items [] f = Inl ValueError
      \<and> FaissIndexFactory_get_items (i # rest) f = Inl RuntimeError)
   \<and> RedisIndex_get_current_count r = Inl NotImplementedError
   \<and> (hashes (rd_redis r) = Map.empty \<longrightarrow>
        RedisIndex_get_items (Some id_list) r = Inr (map (\<lambda>i. None) id_list))"
proof (intro conjI impI)
  assume un: "\<not> hn_index_inited h"
  then have m: "max_elements h = 0"
    by (simp add: max_elements_def)
  from un show "LazyHnsw_get_current_count h = 0"
    by (simp add: LazyHnsw_get_current_count_def element_count_def)
  from m show "LazyHnsw_search Index_knn_query queries k h = Inr ([], [])"
    by (simp add: LazyHnsw_search_def LazyHnsw_knn_query_def)
  from m show "LazyHnsw_get_items ids h = Inr []"
    by (simp add: LazyHnsw_get_items_def)
next
  assume s: "s = fst (SciKitNearestNeighbors_init space dim)"
  then have fresh: "sk_items s = []" "sk_ids s = []" "\<not> sk_fitted s"
    by (simp_all add: SciKitNearestNeighbors_init_def)
  from fresh show "SciKitNearestNeighbors_get_current_count s = 0"
    by (simp add: SciKitNearestNeighbors_get_current_count_def)
  show "SciKitNearestNeighbors_get_items (Some []) s = Inr []"
    by (simp add: SciKitNearestNeighbors_get_items_def)
  from fresh show "SciKitNearestNeighbors_get_items (Some (i # rest)) s = Inl ValueError"
    by (simp add: SciKitNearestNeighbors_get_items_def)
  from fresh show "SciKitNearestNeighbors_search kneighbors queries k s = Raises ValueError s"
    by (simp add: SciKitNearestNeighbors_search_def NearestNeighbors_fit_def)
next
  assume f: "fst (FaissIndexFactory_init builds space dim index_factory) = Inr f"
  from FaissIndexFactory_init_fresh [OF this] have empty: "fi_vectors (fa_index f) = []"
    by simp
  from empty show "FaissIndexFactory_get_current_count f = 0"
    by (simp add: FaissIndexFactory_get_current_count_def faiss_ntotal_def)
  show "FaissIndexFactory_get_items [] f = Inl ValueError"
    by (simp add: FaissIndexFactory_get_items_def np_vstack_def)
  from empty show "FaissIndexFactory_get_items (i # rest) f = Inl RuntimeError"
    by (simp add: FaissIndexFactory_get_items_def faiss_reconstruct_def)
next
  show "RedisIndex_get_current_count r = Inl NotImplementedError"
    by (simp add: RedisIndex_get_current_count_def)
next
  assume "hashes (rd_redis r) = Map.empty"
  then show "RedisIndex_get_items (Some id_list) r = Inr (map (\<lambda>i. None) id_list)"
    by (rule RedisIndex_get_items_empty_server)
qed

theorem uninitialized_index_reads_witness:
  "\<not> hn_index_inited example_hnsw
   \<and> LazyHnsw_get_current_count example_hnsw = 0
   \<and> LazyHnsw_search (\<lambda>h queries k. Inr ([7 :: int], [0 :: int])) [[0, 0, 0, 0]] 1 example_hnsw
       = Inr ([], [])
   \<and> LazyHnsw_get_items (Some [1]) example_hnsw = Inr []
   \<and> example_scikit = fst (SciKitNearestNeighbors_init ''l2'' 4)
   \<and> SciKitNearestNeighbors_get_current_count example_scikit = 0
   \<and> SciKitNearestNeighbors_get_items (Some [1, 2]) example_scikit = Inl ValueError
   \<and> fst (FaissIndexFactory_init example_builds ''l2'' 4 '''') = Inr example_faiss
   \<and> FaissIndexFactory_get_current_count example_faiss = 0
   \<and> FaissIndexFactory_get_items [1, 2] example_faiss = Inl RuntimeError
   \<and> hashes (rd_redis example_redis) = Map.empty
   \<and> RedisIndex_get_items (Some [1, 2]) example_redis = Inr [None, None]"
proof -
  have em: "hashes (rd_redis example_redis) = Map.empty"
    by (simp add: example_redis_def)
  have un: "\<not> hn_index_inited example_hnsw"
    by (simp add: example_hnsw_def)
  have sk: "example_scikit = fst (SciKitNearestNeighbors_init ''l2'' 4)"
    by (simp add: example_scikit_constructed)
  have fa: "fst (FaissIndexFactory_init example_builds ''l2'' 4 '''') = Inr example_faiss"
    by (simp add: example_faiss_constructed)
  note t = uninitialized_index_reads
    [where h = example_hnsw and s = example_scikit and space = "''l2''" and dim = 4
       and builds = example_builds and index_factory = "''''" and f = example_faiss
       and i = 1 and rest = "[2]"
       and ids = "Some [1]" and queries = "[[0, 0, 0, 0]]" and k = 1
       and Index_knn_query = "\<lambda>h queries k. Inr ([7 :: int], [0 :: int])"
       and r = example_redis and id_list = "[1, 2]"]
  from t [THEN conjunct2, THEN conjunct2, THEN conjunct2, THEN conjunct2, THEN mp, OF em]
  have e: "RedisIndex_get_items (Some [1, 2]) example_redis = Inr [None, None]"
    by simp
  note a = t [THEN conjunct1, THEN mp, OF un]
  note b = t [THEN conjunct2, THEN conjunct1, THEN mp, OF sk]
  note c = t [THEN conjunct2, THEN conjunct2, THEN conjunct1, THEN mp, OF fa]
  show ?thesis
    by (intro conjI)
      (rule un, rule a [THEN conjunct1], rule a [THEN conjunct2, THEN conjunct1],
        rule a [THEN conjunct2, THEN conjunct2], rule sk, rule b [THEN conjunct1],
        rule b [THEN conjunct2, THEN conjunct2, THEN conjunct1], rule fa,
        rule c [THEN conjunct1], rule c [THEN conjunct2, THEN conjunct2], rule em, rule e)
qed

subsection \<open>Allocation and growth in LazyHnsw.add_items\<close>

text \<open>
  Claim C3, as the specification states it: the first \<^verbatim>\<open>add_items\<close> allocates the declared
  capacity, or the default 1024 if the declared capacity was 0. The number 1024 is the
  default of the constructor's keyword argument; \<^verbatim>\<open>init\<close> replaces its own argument 0 by
  the declared capacity and nothing replaces a declared 0. With a declared capacity of 0
  the allocation has size 0, and inserting one item leaves a capacity of 1.
\<close>

theorem declared_zero_capacity_counterexample:
  "init_max_elements example_hnsw_declared_0 = 0
   \<and> returned (LazyHnsw_init 0 example_hnsw_declared_0)
   \<and> hn_index_inited (state_of (LazyHnsw_init 0 example_hnsw_declared_0))
   \<and> hn_capacity (state_of (LazyHnsw_init 0 example_hnsw_declared_0)) = 0
   \<and> hn_capacity (state_of (LazyHnsw_init 0 example_hnsw_declared_0)) \<noteq> 1024
   \<and> returned (LazyHnsw_add_items [[0, 0, 0, 0]] (Some [1]) example_hnsw_declared_0)
   \<and> LazyHnsw_get_max_elements
       (state_of (LazyHnsw_add_items [[0, 0, 0, 0]] (Some [1]) example_hnsw_declared_0)) = 1
   \<and> LazyHnsw_get_max_elements
       (state_of (LazyHnsw_add_items [[0, 0, 0, 0]] (Some [1]) example_hnsw_declared_0))
       \<noteq> 1024"
  by (simp add: example_hnsw_declared_0_def LazyHnsw_init_def Index_init_index_def
      LazyHnsw_add_items_def max_elements_def element_count_def Index_resize_index_def
      Index_add_items_def LazyHnsw_get_max_elements_def np_ragged_def size_t_labels_def)

text \<open>
  Claim C3, amended. The constructor keeps the declared capacity, which is 1024 when the
  argument \<^verbatim>\<open>max_elements\<close> is omitted. On an index whose engine is not initialised,
  \<^verbatim>\<open>add_items\<close> first allocates storage of exactly the declared capacity (a declared 0 stays
  0). Then, as on every call on an index whose allocated capacity is not 0, when
  count + incoming exceeds the allocated capacity it grows the capacity to
  max(allocated capacity, count + incoming). Only after that does the engine insert: it
  runs on an index whose stored elements are untouched and whose capacity holds
  count + incoming. On an index whose engine is initialised with capacity 0 (as
  \<^verbatim>\<open>init()\<close> leaves it when the declared capacity is 0) \<^verbatim>\<open>add_items\<close> calls \<^verbatim>\<open>init()\<close>
  again: the engine raises \<^verbatim>\<open>RuntimeError\<close>, and nothing is allocated, grown or inserted.
\<close>

theorem add_items_capacity_policy:
  "(LazyHnsw_new space dim max_elements_arg ef_construction_arg M_arg = Inr h0 \<longrightarrow>
      \<not> hn_index_inited h0
      \<and> init_max_elements h0 = (case max_elements_arg of None \<Rightarrow> 1024 | Some n \<Rightarrow> n))
   \<and> (\<not> hn_index_inited h \<longrightarrow>
      returned (LazyHnsw_init 0 h)
      \<and> hn_index_inited (state_of (LazyHnsw_init 0 h))
      \<and> hn_capacity (state_of (LazyHnsw_init 0 h)) = init_max_elements h
      \<and> (\<exists>h2. LazyHnsw_add_items data ids h = Index_add_items data ids h2
            \<and> hn_index_inited h2 \<and> hn_elements h2 = []
            \<and> hn_capacity h2 = max (init_max_elements h) (length data)
            \<and> element_count h2 + length data \<le> max_elements h2))
   \<and> (max_elements h \<noteq> 0 \<longrightarrow>
      (\<exists>h2. LazyHnsw_add_items data ids h = Index_add_items data ids h2
         \<and> hn_index_inited h2 \<and> hn_elements h2 = hn_elements h
         \<and> max_elements h2 = max (max_elements h) (element_count h + length data)
         \<and> element_count h2 + length data \<le> max_elements h2))
   \<and> (hn_index_inited h \<and> max_elements h = 0 \<longrightarrow>
      LazyHnsw_add_items data ids h = Raises RuntimeError h)"
proof (intro conjI impI)
  assume "LazyHnsw_new space dim max_elements_arg ef_construction_arg M_arg = Inr h0"
  then have h0: "h0 = hnsw_index.extend
      \<lparr>hn_space = space, hn_dim = dim, hn_index_inited = False, hn_capacity = 0, hn_M = 0,
        hn_ef_construction = 0, hn_ef = 10, hn_cur_l = 0, hn_elements = []\<rparr>
      \<lparr>init_max_elements = (case max_elements_arg of None \<Rightarrow> 1024 | Some n \<Rightarrow> n),
        init_ef_construction = (case ef_construction_arg of None \<Rightarrow> 200 | Some n \<Rightarrow> n),
        init_M = (case M_arg of None \<Rightarrow> 16 | Some n \<Rightarrow> n)\<rparr>"
    by (auto simp: LazyHnsw_new_def Index_new_def split: if_splits)
  show "\<not> hn_index_inited h0"
    unfolding h0 by (simp add: hnsw_index.extend_def)
  show "init_max_elements h0 = (case max_elements_arg of None \<Rightarrow> 1024 | Some n \<Rightarrow> n)"
    unfolding h0 by (simp add: hnsw_index.extend_def)
next
  assume un: "\<not> hn_index_inited h"
  then show "returned (LazyHnsw_init 0 h)"
    by (simp add: LazyHnsw_init_def Index_init_index_def)
  from un show "hn_index_inited (state_of (LazyHnsw_init 0 h))"
    by (simp add: LazyHnsw_init_def Index_init_index_def)
  from un show "hn_capacity (state_of (LazyHnsw_init 0 h)) = init_max_elements h"
    by (simp add: LazyHnsw_init_def Index_init_index_def)
  let ?h2 = "h\<lparr>hn_index_inited := True,
      hn_capacity := max (init_max_elements h) (length data), hn_M := init_M h,
      hn_ef_construction := init_ef_construction h, hn_cur_l := 0, hn_elements := []\<rparr>"
  have "hn_index_inited ?h2" "hn_elements ?h2 = []"
    "hn_capacity ?h2 = max (init_max_elements h) (length data)"
    "element_count ?h2 + length data \<le> max_elements ?h2"
    by (simp_all add: element_count_def max_elements_def)
  with LazyHnsw_add_items_uninitialized [OF un, of data ids]
  show "\<exists>h2. LazyHnsw_add_items data ids h = Index_add_items data ids h2
            \<and> hn_index_inited h2 \<and> hn_elements h2 = []
            \<and> hn_capacity h2 = max (init_max_elements h) (length data)
            \<and> element_count h2 + length data \<le> max_elements h2"
    by blast
next
  assume al: "max_elements h \<noteq> 0"
  then have i: "hn_index_inited h"
    by (simp add: max_elements_def split: if_splits)
  let ?h2 = "h\<lparr>hn_capacity := max (max_elements h) (element_count h + length data)\<rparr>"
  from i have "hn_index_inited ?h2" "hn_elements ?h2 = hn_elements h"
    "max_elements ?h2 = max (max_elements h) (element_count h + length data)"
    "element_count ?h2 + length data \<le> max_elements ?h2"
    by (simp_all add: element_count_def max_elements_def)
  with LazyHnsw_add_items_allocated [OF al, of data ids]
  show "\<exists>h2. LazyHnsw_add_items data ids h = Index_add_items data ids h2
         \<and> hn_index_inited h2 \<and> hn_elements h2 = hn_elements h
         \<and> max_elements h2 = max (max_elements h) (element_count h + length data)
         \<and> element_count h2 + length data \<le> max_elements h2"
    by blast
next
  assume "hn_index_inited h \<and> max_elements h = 0"
  then show "LazyHnsw_add_items data ids h = Raises RuntimeError h"
    by (simp add: LazyHnsw_add_items_already_initialized)
qed

theorem add_items_capacity_policy_witness:
  "LazyHnsw_new ''l2'' 4 None None None = Inr example_hnsw
   \<and> init_max_elements example_hnsw = 1024
   \<and> \<not> hn_index_inited example_hnsw
   \<and> hn_capacity (state_of (LazyHnsw_init 0 example_hnsw)) = 1024
   \<and> max_elements example_hnsw_two_items \<noteq> 0
   \<and> (\<exists>h2. LazyHnsw_add_items [[2, 2, 2, 2]] (Some [3]) example_hnsw_two_items
              = Index_add_items [[2, 2, 2, 2]] (Some [3]) h2
         \<and> hn_elements h2 = hn_elements example_hnsw_two_items
         \<and> max_elements h2 = 3)
   \<and> hn_index_inited (state_of (LazyHnsw_init 0 example_hnsw_declared_0))
   \<and> max_elements (state_of (LazyHnsw_init 0 example_hnsw_declared_0)) = 0
   \<and> LazyHnsw_add_items [[0, 0, 0, 0]] (Some [1])
         (state_of (LazyHnsw_init 0 example_hnsw_declared_0))
       = Raises RuntimeError (state_of (LazyHnsw_init 0 example_hnsw_declared_0))"
proof -
  let ?h0 = "state_of (LazyHnsw_init 0 example_hnsw_declared_0)"
  have z1: "hn_index_inited ?h0"
    by (simp add: example_hnsw_declared_0_def LazyHnsw_init_def Index_init_index_def)
  have z2: "max_elements ?h0 = 0"
    by (simp add: example_hnsw_declared_0_def LazyHnsw_init_def Index_init_index_def
        max_elements_def)
  from z1 z2 have z: "hn_index_inited ?h0 \<and> max_elements ?h0 = 0"
    by (rule conjI)
  note z3 = add_items_capacity_policy [where h = ?h0 and data = "[[0, 0, 0, 0]]"
      and ids = "Some [1]", THEN conjunct2, THEN conjunct2, THEN conjunct2, THEN mp, OF z]
  note c = example_hnsw_constructed
  have un: "\<not> hn_index_inited example_hnsw"
    by (simp add: example_hnsw_def)
  have al: "max_elements example_hnsw_two_items \<noteq> 0"
    by (simp add: example_hnsw_two_items_def max_elements_def)
  note t1 = add_items_capacity_policy [where ?h0.0 = example_hnsw and space = "''l2''"
      and dim = 4 and max_elements_arg = None and ef_construction_arg = None and M_arg = None
      and h = example_hnsw and data = "[[2, 2, 2, 2]]" and ids = "Some [3]"]
  note t2 = add_items_capacity_policy [where h = example_hnsw_two_items
      and data = "[[2, 2, 2, 2]]" and ids = "Some [3]"]
  from t1 [THEN conjunct1, THEN mp, OF c]
  have d: "init_max_elements example_hnsw = 1024"
    by simp
  from t1 [THEN conjunct2, THEN conjunct1, THEN mp, OF un] d
  have a: "hn_capacity (state_of (LazyHnsw_init 0 example_hnsw)) = 1024"
    by simp
  from t2 [THEN conjunct2, THEN conjunct2, THEN conjunct1, THEN mp, OF al]
  obtain h2 where h2:
    "LazyHnsw_add_items [[2, 2, 2, 2]] (Some [3]) example_hnsw_two_items
       = Index_add_items [[2, 2, 2, 2]] (Some [3]) h2"
    "hn_elements h2 = hn_elements example_hnsw_two_items"
    "max_elements h2 = max (max_elements example_hnsw_two_items)
       (element_count example_hnsw_two_items + length [[2, 2, 2, 2 :: int]])"
    by blast
  have "max (max_elements example_hnsw_two_items)
       (element_count example_hnsw_two_items + length [[2, 2, 2, 2 :: int]]) = 3"
    by (simp add: example_hnsw_two_items_def max_elements_def element_count_def)
  with h2 have g: "\<exists>h2. LazyHnsw_add_items [[2, 2, 2, 2]] (Some [3]) example_hnsw_two_items
              = Index_add_items [[2, 2, 2, 2]] (Some [3]) h2
         \<and> hn_elements h2 = hn_elements example_hnsw_two_items
         \<and> max_elements h2 = 3"
    by auto
  show ?thesis
    by (intro conjI)
      (rule c, rule d, rule un, rule a, rule al, rule g, rule z1, rule z2, rule z3)
qed

subsection \<open>The metric argument at construction\<close>




subsection \<open>The write batch of RedisIndex.add_items\<close>

text \<open>
  Claim C5, as the specification states it: the writes of one \<^verbatim>\<open>add_items\<close> batch commit
  together on scope exit, or none of them commits. In the source \<^verbatim>\<open>add_items\<close> sends its
  batch itself, through a non-transactional pipeline of its own, and the scope's
  \<^verbatim>\<open>__exit__\<close> sends whatever pipeline the object then holds.
  \<^item> Inside an open scope, a complete batch is on the server before the scope is left.
  \<^item> A batch whose second datum cannot be encoded raises with nothing written, after which
    \<^verbatim>\<open>__exit__\<close> writes the first item alone.
  \<^item> On a server that denies the key of the second item, \<^verbatim>\<open>add_items\<close> raises after the
    first item has been written: a part of the batch is on the server.
\<close>

theorem scoped_commit_counterexample:
  "returned (RedisIndex_add_items example_tobytes [Some [0, 0, 0, 0], Some [1, 1, 1, 1]]
       (Some [1, 2]) None (RedisIndex_enter example_redis))
   \<and> hashes (rd_redis (state_of
         (RedisIndex_add_items example_tobytes [Some [0, 0, 0, 0], Some [1, 1, 1, 1]]
            (Some [1, 2]) None (RedisIndex_enter example_redis)))) ''item:1''
       = Some \<lparr>h_embedding = [0, 0, 0, 0], h_item_id = ''1'', h_partition = ''''\<rparr>
   \<and> \<not> returned (RedisIndex_add_items example_tobytes [Some [0, 0, 0, 0], None]
       (Some [1, 2]) None (RedisIndex_enter example_redis))
   \<and> hashes (rd_redis (state_of
         (RedisIndex_add_items example_tobytes [Some [0, 0, 0, 0], None]
            (Some [1, 2]) None (RedisIndex_enter example_redis)))) ''item:1'' = None
   \<and> hashes (rd_redis (state_of (RedisIndex_exit (state_of
         (RedisIndex_add_items example_tobytes [Some [0, 0, 0, 0], None]
            (Some [1, 2]) None (RedisIndex_enter example_redis)))))) ''item:1''
       = Some \<lparr>h_embedding = [0, 0, 0, 0], h_item_id = ''1'', h_partition = ''''\<rparr>
   \<and> hashes (rd_redis (state_of (RedisIndex_exit (state_of
         (RedisIndex_add_items example_tobytes [Some [0, 0, 0, 0], None]
            (Some [1, 2]) None (RedisIndex_enter example_redis)))))) ''item:2'' = None
   \<and> \<not> returned (RedisIndex_add_items example_tobytes [Some [0, 0, 0, 0], Some [1, 1, 1, 1]]
       (Some [1, 2]) None example_redis_denied)
   \<and> hashes (rd_redis (state_of
         (RedisIndex_add_items example_tobytes [Some [0, 0, 0, 0], Some [1, 1, 1, 1]]
            (Some [1, 2]) None example_redis_denied))) ''item:1''
       = Some \<lparr>h_embedding = [0, 0, 0, 0], h_item_id = ''1'', h_partition = ''''\<rparr>
   \<and> hashes (rd_redis (state_of
         (RedisIndex_add_items example_tobytes [Some [0, 0, 0, 0], Some [1, 1, 1, 1]]
            (Some [1, 2]) None example_redis_denied))) ''item:2'' = None"
  by (simp add: RedisIndex_add_items_def RedisIndex_enter_def RedisIndex_exit_def
      example_redis_def example_redis_denied_def example_tobytes_def Redis_pipeline_def
      pipeline_hset_def pipeline_execute_def pipeline_reset_def permitted_def server_hset_def
      str_int_1 str_int_2 Let_def)

text \<open>
  Claim C5, amended. \<^verbatim>\<open>add_items\<close> queues the writes of its batch on a fresh
  non-transactional pipeline of its own and sends them in one \<^verbatim>\<open>execute\<close> at its own end,
  not at scope exit. With the connection to the server holding, it returns exactly when
  ids are given, every datum of \<^verbatim>\<open>zip(data, ids)\<close> can be encoded and the server permits the
  writing of every key of the batch. Then the server has run one \<^verbatim>\<open>HSET\<close> for every pair of
  \<^verbatim>\<open>zip(data, ids)\<close>, in order, every key of the batch is present, the pipeline handle is
  \<^verbatim>\<open>None\<close> and nothing else of the object has changed. In every other case it raises, and
  the pipeline handle keeps a pipeline:
  \<^item> without ids it raises \<^verbatim>\<open>TypeError\<close>; the server is untouched and the handle holds the
    new, empty pipeline;
  \<^item> when a datum cannot be encoded it raises the exception of the encoding of the first
    such datum; the server is untouched, and the handle holds the non-transactional
    pipeline in which exactly the writes of the pairs before that datum are queued;
  \<^item> when every datum is encoded and the server denies a key of the batch, it raises
    \<^verbatim>\<open>ResponseError\<close> out of \<^verbatim>\<open>execute\<close>; the writes on the permitted keys have been made,
    in order, and the handle holds the emptied pipeline.
\<close>

theorem add_items_batched_write:
  "(returned (RedisIndex_add_items tobytes data ids partition_arg r)
      \<longleftrightarrow> (\<exists>id_list. ids = Some id_list
            \<and> list_all (encodable tobytes) (zip data id_list)
            \<and> list_all (permitted (rd_redis r))
                (map (item_hset tobytes (case partition_arg of None \<Rightarrow> '''' | Some s \<Rightarrow> s))
                   (zip data id_list))))
   \<and> (RedisIndex_add_items tobytes data (Some id_list) partition_arg r = Returns u r' \<longrightarrow>
        r' = r\<lparr>rd_redis :=
                 fold server_hset
                   (map (item_hset tobytes (case partition_arg of None \<Rightarrow> '''' | Some s \<Rightarrow> s))
                      (zip data id_list))
                   (rd_redis r),
               rd_pipe := None\<rparr>
        \<and> list_all (\<lambda>x. hashes (rd_redis r') (''item:'' @ str_int (snd x)) \<noteq> None)
            (zip data id_list))
   \<and> RedisIndex_add_items tobytes data None partition_arg r
        = Raises TypeError (r\<lparr>rd_pipe := Some (Redis_pipeline False)\<rparr>)
   \<and> (\<not> list_all (encodable tobytes) (zip data id_list) \<longrightarrow>
        RedisIndex_add_items tobytes data (Some id_list) partition_arg r
          = Raises (projl (tobytes (fst (hd (dropWhile (encodable tobytes) (zip data id_list))))))
              (r\<lparr>rd_pipe := Some
                   \<lparr>pl_transaction = False,
                    pl_command_stack =
                      map (item_hset tobytes (case partition_arg of None \<Rightarrow> '''' | Some s \<Rightarrow> s))
                        (takeWhile (encodable tobytes) (zip data id_list))\<rparr>\<rparr>))
   \<and> (list_all (encodable tobytes) (zip data id_list)
        \<and> \<not> list_all (permitted (rd_redis r))
              (map (item_hset tobytes (case partition_arg of None \<Rightarrow> '''' | Some s \<Rightarrow> s))
                 (zip data id_list)) \<longrightarrow>
        RedisIndex_add_items tobytes data (Some id_list) partition_arg r
          = Raises ResponseError
              (r\<lparr>rd_redis :=
                    fold server_hset
                      (filter (permitted (rd_redis r))
                         (map (item_hset tobytes
                                 (case partition_arg of None \<Rightarrow> '''' | Some s \<Rightarrow> s))
                            (zip data id_list)))
                      (rd_redis r),
                  rd_pipe := Some (Redis_pipeline False)\<rparr>))"
proof (intro conjI impI)
  show "returned (RedisIndex_add_items tobytes data ids partition_arg r)
      \<longleftrightarrow> (\<exists>id_list. ids = Some id_list
            \<and> list_all (encodable tobytes) (zip data id_list)
            \<and> list_all (permitted (rd_redis r))
                (map (item_hset tobytes (case partition_arg of None \<Rightarrow> '''' | Some s \<Rightarrow> s))
                   (zip data id_list)))"
  proof (cases ids)
    case None
    then show ?thesis
      by (simp add: RedisIndex_add_items_def Let_def)
  next
    case (Some id_list)
    then show ?thesis
      by (simp add: RedisIndex_add_items_eq Let_def)
  qed
next
  let ?part = "case partition_arg of None \<Rightarrow> '''' | Some s \<Rightarrow> s"
  let ?cmds = "map (item_hset tobytes ?part) (zip data id_list)"
  assume a: "RedisIndex_add_items tobytes data (Some id_list) partition_arg r = Returns u r'"
  from RedisIndex_add_items_Returns(3) [OF a]
  show r': "r' = r\<lparr>rd_redis := fold server_hset ?cmds (rd_redis r), rd_pipe := None\<rparr>" .
  then have store: "rd_redis r' = fold server_hset ?cmds (rd_redis r)"
    by simp
  show "list_all (\<lambda>x. hashes (rd_redis r') (''item:'' @ str_int (snd x)) \<noteq> None) (zip data id_list)"
    unfolding list_all_iff
  proof
    fix x assume x: "x \<in> set (zip data id_list)"
    then have "item_hset tobytes ?part x \<in> set ?cmds"
      by simp
    then have "fst (item_hset tobytes ?part x) \<in> set (map fst (rev ?cmds))"
      by force
    then have "(''item:'' @ str_int (snd x)) \<in> set (map fst (rev ?cmds))"
      by (simp add: item_hset_def)
    from map_of_known [OF this] show "hashes (rd_redis r') (''item:'' @ str_int (snd x)) \<noteq> None"
      unfolding store hashes_fold_server_hset by auto
  qed
next
  show "RedisIndex_add_items tobytes data None partition_arg r
        = Raises TypeError (r\<lparr>rd_pipe := Some (Redis_pipeline False)\<rparr>)"
    by (simp add: RedisIndex_add_items_def Let_def)
next
  assume "\<not> list_all (encodable tobytes) (zip data id_list)"
  then show "RedisIndex_add_items tobytes data (Some id_list) partition_arg r
          = Raises (projl (tobytes (fst (hd (dropWhile (encodable tobytes) (zip data id_list))))))
              (r\<lparr>rd_pipe := Some
                   \<lparr>pl_transaction = False,
                    pl_command_stack =
                      map (item_hset tobytes (case partition_arg of None \<Rightarrow> '''' | Some s \<Rightarrow> s))
                        (takeWhile (encodable tobytes) (zip data id_list))\<rparr>\<rparr>)"
    by (simp add: RedisIndex_add_items_eq Let_def)
next
  assume "list_all (encodable tobytes) (zip data id_list)
        \<and> \<not> list_all (permitted (rd_redis r))
              (map (item_hset tobytes (case partition_arg of None \<Rightarrow> '''' | Some s \<Rightarrow> s))
                 (zip data id_list))"
  then show "RedisIndex_add_items tobytes data (Some id_list) partition_arg r
          = Raises ResponseError
              (r\<lparr>rd_redis :=
                    fold server_hset
                      (filter (permitted (rd_redis r))
                         (map (item_hset tobytes
                                 (case partition_arg of None \<Rightarrow> '''' | Some s \<Rightarrow> s))
                            (zip data id_list)))
                      (rd_redis r),
                  rd_pipe := Some (Redis_pipeline False)\<rparr>)"
    by (simp add: RedisIndex_add_items_eq Let_def)
qed

theorem add_items_batched_write_witness:
  "RedisIndex_add_items example_tobytes [Some [0, 0, 0, 0], Some [1, 1, 1, 1]] (Some [1, 2])
       None example_redis
     = Returns () (state_of (RedisIndex_add_items example_tobytes
         [Some [0, 0, 0, 0], Some [1, 1, 1, 1]] (Some [1, 2]) None example_redis))
   \<and> rd_pipe (state_of (RedisIndex_add_items example_tobytes
         [Some [0, 0, 0, 0], Some [1, 1, 1, 1]] (Some [1, 2]) None example_redis)) = None
   \<and> list_all (\<lambda>x. hashes (rd_redis (state_of (RedisIndex_add_items example_tobytes
         [Some [0, 0, 0, 0], Some [1, 1, 1, 1]] (Some [1, 2]) None example_redis)))
           (''item:'' @ str_int (snd x)) \<noteq> None)
       (zip [Some [0, 0, 0, 0 :: int], Some [1, 1, 1, 1]] [1, 2])
   \<and> \<not> list_all (encodable example_tobytes) (zip [Some [0, 0, 0, 0], None] [1, 2])
   \<and> RedisIndex_add_items example_tobytes [Some [0, 0, 0, 0], None] (Some [1, 2])
       None example_redis
     = Raises ValueError
         (example_redis\<lparr>rd_pipe := Some
            \<lparr>pl_transaction = False,
             pl_command_stack =
               [(''item:1'',
                 \<lparr>h_embedding = [0, 0, 0, 0], h_item_id = ''1'', h_partition = ''''\<rparr>)]\<rparr>\<rparr>)
   \<and> list_all (encodable example_tobytes)
       (zip [Some [0, 0, 0, 0], Some [1, 1, 1, 1]] [1, 2])
   \<and> \<not> list_all (permitted (rd_redis example_redis_denied))
         (map (item_hset example_tobytes '''')
            (zip [Some [0, 0, 0, 0], Some [1, 1, 1, 1]] [1, 2]))
   \<and> RedisIndex_add_items example_tobytes [Some [0, 0, 0, 0], Some [1, 1, 1, 1]] (Some [1, 2])
       None example_redis_denied
     = Raises ResponseError
         (example_redis_denied
            \<lparr>rd_redis := (rd_redis example_redis_denied)
               \<lparr>hashes := [''item:1'' \<mapsto>
                  \<lparr>h_embedding = [0, 0, 0, 0], h_item_id = ''1'', h_partition = ''''\<rparr>]\<rparr>,
             rd_pipe := Some (Redis_pipeline False)\<rparr>)"
proof -
  let ?data = "[Some [0, 0, 0, 0], Some [1, 1, 1, 1 :: int]]"
  let ?good = "RedisIndex_add_items example_tobytes ?data (Some [1, 2]) None example_redis"
  let ?bad = "RedisIndex_add_items example_tobytes [Some [0, 0, 0, 0], None]
    (Some [1, 2]) None example_redis"
  let ?denied = "RedisIndex_add_items example_tobytes ?data (Some [1, 2]) None
    example_redis_denied"
  have g: "?good = Returns () (state_of ?good)"
    by (simp add: RedisIndex_add_items_eq Let_def encodable_def example_tobytes_def
        permitted_def item_hset_def example_redis_def)
  have nb: "\<not> list_all (encodable example_tobytes) (zip [Some [0, 0, 0, 0], None] [1, 2])"
    by (simp add: encodable_def example_tobytes_def)
  have en: "list_all (encodable example_tobytes) (zip ?data [1, 2])"
    by (simp add: encodable_def example_tobytes_def)
  have np: "\<not> list_all (permitted (rd_redis example_redis_denied))
      (map (item_hset example_tobytes '''') (zip ?data [1, 2]))"
    by (simp add: permitted_def item_hset_def example_redis_denied_def str_int_2)
  from en np have enp: "list_all (encodable example_tobytes) (zip ?data [1, 2])
    \<and> \<not> list_all (permitted (rd_redis example_redis_denied))
      (map (item_hset example_tobytes (case None of None \<Rightarrow> '''' | Some s \<Rightarrow> s))
         (zip ?data [1, 2]))"
    by simp
  note t = add_items_batched_write [where tobytes = example_tobytes and partition_arg = None
      and id_list = "[1, 2]"]
  note tg = t [where data = ?data and r = example_redis and u = "()"
      and r' = "state_of ?good", THEN conjunct2, THEN conjunct1, THEN mp, OF g]
  from tg [THEN conjunct1] have pn: "rd_pipe (state_of ?good) = None"
    by simp
  from t [where data = "[Some [0, 0, 0, 0], None]" and r = example_redis,
      THEN conjunct2, THEN conjunct2, THEN conjunct2, THEN conjunct1, THEN mp, OF nb]
  have b: "?bad = Raises ValueError
         (example_redis\<lparr>rd_pipe := Some
            \<lparr>pl_transaction = False,
             pl_command_stack =
               [(''item:1'',
                 \<lparr>h_embedding = [0, 0, 0, 0], h_item_id = ''1'', h_partition = ''''\<rparr>)]\<rparr>\<rparr>)"
    by (simp add: encodable_def example_tobytes_def item_hset_def str_int_1)
  from t [where data = ?data and r = example_redis_denied,
      THEN conjunct2, THEN conjunct2, THEN conjunct2, THEN conjunct2, THEN mp, OF enp]
  have d: "?denied = Raises ResponseError
         (example_redis_denied
            \<lparr>rd_redis := (rd_redis example_redis_denied)
               \<lparr>hashes := [''item:1'' \<mapsto>
                  \<lparr>h_embedding = [0, 0, 0, 0], h_item_id = ''1'', h_partition = ''''\<rparr>]\<rparr>,
             rd_pipe := Some (Redis_pipeline False)\<rparr>)"
    by (simp add: permitted_def item_hset_def example_redis_denied_def example_redis_def
        example_tobytes_def server_hset_def str_int_1 str_int_2)
  show ?thesis
    by (intro conjI)
      (rule g, rule pn, rule tg [THEN conjunct2], rule nb, rule b, rule en, rule np, rule d)
qed

subsection \<open>Round trip through insertion\<close>

text \<open>
  Claim C6, as the specification states it: after \<^verbatim>\<open>add_items\<close> on a fresh index, every
  adapter answers \<^verbatim>\<open>get_current_count()\<close> with the number of inserted items. The redis
  adapter's \<^verbatim>\<open>get_current_count\<close> raises \<^verbatim>\<open>NotImplementedError\<close> whatever was inserted.
\<close>

theorem round_trip_count_counterexample:
  "returned (RedisIndex_add_items example_tobytes [Some [0, 0, 0, 0], Some [1, 1, 1, 1]]
       (Some [1, 2]) None example_redis)
   \<and> RedisIndex_get_current_count
       (state_of (RedisIndex_add_items example_tobytes [Some [0, 0, 0, 0], Some [1, 1, 1, 1]]
          (Some [1, 2]) None example_redis))
     = Inl NotImplementedError
   \<and> RedisIndex_get_current_count
       (state_of (RedisIndex_add_items example_tobytes [Some [0, 0, 0, 0], Some [1, 1, 1, 1]]
          (Some [1, 2]) None example_redis))
     \<noteq> Inr 2"
  by (simp add: RedisIndex_add_items_eq RedisIndex_get_current_count_def encodable_def
      example_tobytes_def permitted_def item_hset_def example_redis_def Let_def)

text \<open>
  Claim C6, amended. Let \<open>ids\<close> be distinct and as many as the vectors of \<open>data\<close>.
  \<^item> Reference adapter: after \<^verbatim>\<open>add_items(data, ids)\<close> on a fresh index,
    \<^verbatim>\<open>get_current_count()\<close> is \<open>len(data)\<close>, \<^verbatim>\<open>get_items(ids)\<close> is \<open>data\<close>, and \<^verbatim>\<open>get_items\<close>
    of any list of inserted ids returns their vectors in the order requested.
  \<^item> faiss adapter with a \<^verbatim>\<open>Flat\<close> index that is ready to store, a batch that is not empty,
    vectors of the declared dimension, ids that are not negative and below \<open>2\<^sup>6\<^sup>3\<close>: the
    same, for a non-empty list of requested ids (\<^verbatim>\<open>np.vstack\<close> raises on the empty list).
  \<^item> hnswlib adapter with space \<^verbatim>\<open>l2\<close> or \<^verbatim>\<open>ip\<close>, a batch that is not empty, vectors of the
    declared dimension, ids that are not negative and below \<open>2\<^sup>6\<^sup>3\<close>: the same as for the
    reference adapter.
  \<^item> redis adapter, when \<^verbatim>\<open>add_items\<close> returns: \<^verbatim>\<open>get_items(ids)\<close> returns the stored byte
    encodings of the inserted data in the order of \<open>ids\<close>, each as a non-null slot;
    \<^verbatim>\<open>get_current_count()\<close> raises \<^verbatim>\<open>NotImplementedError\<close>.
  Outside these conditions the engines raise: faiss on an empty batch (\<^verbatim>\<open>ValueError\<close>) and
  on an id that does not fit 64 signed bits (\<^verbatim>\<open>OverflowError\<close>), hnswlib on an empty batch
  (\<^verbatim>\<open>RuntimeError\<close>) and on a negative id (\<^verbatim>\<open>OverflowError\<close>).
\<close>

theorem insertion_round_trip:
  assumes "distinct ids" and "length ids = length data"
  shows
    "(\<exists>s1. SciKitNearestNeighbors_add_items data (Some ids)
              (fst (SciKitNearestNeighbors_init space dim)) = Returns () s1
        \<and> SciKitNearestNeighbors_get_current_count s1 = int (length data)
        \<and> SciKitNearestNeighbors_get_items (Some ids) s1 = Inr data
        \<and> (\<forall>req. set req \<subseteq> set ids \<longrightarrow>
              SciKitNearestNeighbors_get_items (Some req) s1
                = Inr (map (\<lambda>i. the (map_of (zip ids data) i)) req)))
     \<and> (index_factory \<in> {'''', ''Flat''}
          \<and> fst (FaissIndexFactory_init builds space dim index_factory) = Inr f
          \<and> fi_is_trained (fa_index f)
          \<and> data \<noteq> [] \<and> (\<forall>v\<in>set data. length v = dim)
          \<and> (\<forall>i\<in>set ids. 0 \<le> i \<and> i < 2 ^ 63) \<longrightarrow>
        (\<exists>f1. FaissIndexFactory_add_items data ids f = Returns () f1
           \<and> FaissIndexFactory_get_current_count f1 = int (length data)
           \<and> FaissIndexFactory_get_items ids f1 = Inr data
           \<and> (\<forall>req. req \<noteq> [] \<and> set req \<subseteq> set ids \<longrightarrow>
                 FaissIndexFactory_get_items req f1
                   = Inr (map (\<lambda>i. the (map_of (zip ids data) i)) req))))
     \<and> (space \<in> {''l2'', ''ip''}
          \<and> LazyHnsw_new space dim max_elements_arg ef_construction_arg M_arg = Inr h
          \<and> data \<noteq> [] \<and> (\<forall>v\<in>set data. length v = dim)
          \<and> (\<forall>i\<in>set ids. 0 \<le> i \<and> i < 2 ^ 63) \<longrightarrow>
        (\<exists>h1. LazyHnsw_add_items data (Some ids) h = Returns () h1
           \<and> LazyHnsw_get_current_count h1 = int (length data)
           \<and> LazyHnsw_get_items (Some ids) h1 = Inr data
           \<and> (\<forall>req. set req \<subseteq> set ids \<longrightarrow>
                 LazyHnsw_get_items (Some req) h1
                   = Inr (map (\<lambda>i. the (map_of (zip ids data) i)) req))))
     \<and> (RedisIndex_add_items tobytes batch (Some ids) partition_arg r = Returns u r'
          \<and> length ids = length batch \<longrightarrow>
        RedisIndex_get_items (Some ids) r'
          = Inr (map (\<lambda>datum. Some (projr (tobytes datum))) batch)
        \<and> RedisIndex_get_current_count r' = Inl NotImplementedError)
     \<and> FaissIndexFactory_add_items [] [] f = Raises ValueError f
     \<and> (\<not> np_ragged data \<and> (\<exists>i\<in>set ids. i < - (2 ^ 63) \<or> 2 ^ 63 \<le> i) \<longrightarrow>
          FaissIndexFactory_add_items data ids f = Raises OverflowError f)
     \<and> (hn_dim h \<noteq> 0 \<longrightarrow>
          (\<exists>h'. LazyHnsw_add_items [] ids_arg h = Raises RuntimeError h'
             \<and> element_count h' = element_count h))
     \<and> ((\<not> hn_index_inited h \<or> max_elements h \<noteq> 0) \<and> \<not> np_ragged data \<and> data \<noteq> []
          \<and> length (hd data) = hn_dim h \<and> (\<exists>i\<in>set ids. i < 0 \<or> 2 ^ 64 \<le> i) \<longrightarrow>
          (\<exists>h'. LazyHnsw_add_items data (Some ids) h = Raises OverflowError h'
             \<and> element_count h' = element_count h))"
proof (intro conjI impI)
  have fresh: "sk_items (fst (SciKitNearestNeighbors_init space dim)) = []"
    "sk_ids (fst (SciKitNearestNeighbors_init space dim)) = []"
    by (simp_all add: SciKitNearestNeighbors_init_def)
  from SciKitNearestNeighbors_round_trip [OF assms fresh]
  obtain s1 where s1:
    "SciKitNearestNeighbors_add_items data (Some ids)
       (fst (SciKitNearestNeighbors_init space dim)) = Returns () s1"
    "SciKitNearestNeighbors_get_current_count s1 = int (length data)"
    "\<forall>req. set req \<subseteq> set ids \<longrightarrow>
       SciKitNearestNeighbors_get_items (Some req) s1
         = Inr (map (\<lambda>i. the (map_of (zip ids data) i)) req)"
    by blast
  from s1(3) have "SciKitNearestNeighbors_get_items (Some ids) s1 = Inr data"
    by (simp add: map_of_zip_all [OF assms])
  with s1 show "\<exists>s1. SciKitNearestNeighbors_add_items data (Some ids)
              (fst (SciKitNearestNeighbors_init space dim)) = Returns () s1
        \<and> SciKitNearestNeighbors_get_current_count s1 = int (length data)
        \<and> SciKitNearestNeighbors_get_items (Some ids) s1 = Inr data
        \<and> (\<forall>req. set req \<subseteq> set ids \<longrightarrow>
              SciKitNearestNeighbors_get_items (Some req) s1
                = Inr (map (\<lambda>i. the (map_of (zip ids data) i)) req))"
    by blast
next
  assume a: "index_factory \<in> {'''', ''Flat''}
    \<and> fst (FaissIndexFactory_init builds space dim index_factory) = Inr f
    \<and> fi_is_trained (fa_index f)
    \<and> data \<noteq> [] \<and> (\<forall>v\<in>set data. length v = dim)
    \<and> (\<forall>i\<in>set ids. 0 \<le> i \<and> i < 2 ^ 63)"
  then have c: "fst (FaissIndexFactory_init builds space dim index_factory) = Inr f"
    and tr: "fi_is_trained (fa_index f)"
    and ne: "data \<noteq> []"
    and d: "\<forall>v\<in>set data. length v = dim"
    and rg: "\<forall>i\<in>set ids. 0 \<le> i \<and> i < 2 ^ 63"
    by simp_all
  from FaissIndexFactory_round_trip [OF assms c tr d ne rg]
  obtain f1 where f1:
    "FaissIndexFactory_add_items data ids f = Returns () f1"
    "FaissIndexFactory_get_current_count f1 = int (length data)"
    "\<forall>req. req \<noteq> [] \<and> set req \<subseteq> set ids \<longrightarrow>
       FaissIndexFactory_get_items req f1
         = Inr (map (\<lambda>i. the (map_of (zip ids data) i)) req)"
    by blast
  have "FaissIndexFactory_get_items ids f1 = Inr data"
  proof -
    from ne assms(2) have "ids \<noteq> [] \<and> set ids \<subseteq> set ids" by auto
    with f1(3) have "FaissIndexFactory_get_items ids f1
      = Inr (map (\<lambda>i. the (map_of (zip ids data) i)) ids)"
      by blast
    then show "FaissIndexFactory_get_items ids f1 = Inr data"
      by (simp add: map_of_zip_all [OF assms])
  qed
  with f1 show "\<exists>f1. FaissIndexFactory_add_items data ids f = Returns () f1
           \<and> FaissIndexFactory_get_current_count f1 = int (length data)
           \<and> FaissIndexFactory_get_items ids f1 = Inr data
           \<and> (\<forall>req. req \<noteq> [] \<and> set req \<subseteq> set ids \<longrightarrow>
                 FaissIndexFactory_get_items req f1
                   = Inr (map (\<lambda>i. the (map_of (zip ids data) i)) req))"
    by blast
next
  assume a: "space \<in> {''l2'', ''ip''}
    \<and> LazyHnsw_new space dim max_elements_arg ef_construction_arg M_arg = Inr h
    \<and> data \<noteq> [] \<and> (\<forall>v\<in>set data. length v = dim)
    \<and> (\<forall>i\<in>set ids. 0 \<le> i \<and> i < 2 ^ 63)"
  then have c: "LazyHnsw_new space dim max_elements_arg ef_construction_arg M_arg = Inr h"
    and ne: "data \<noteq> []"
    and d: "\<forall>v\<in>set data. length v = dim"
    and rg: "\<forall>i\<in>set ids. 0 \<le> i \<and> i < 2 ^ 63"
    by simp_all
  from LazyHnsw_round_trip [OF assms c d ne rg]
  obtain h1 where h1:
    "LazyHnsw_add_items data (Some ids) h = Returns () h1"
    "LazyHnsw_get_current_count h1 = int (length data)"
    "\<forall>req. set req \<subseteq> set ids \<longrightarrow>
       LazyHnsw_get_items (Some req) h1
         = Inr (map (\<lambda>i. the (map_of (zip ids data) i)) req)"
    by blast
  from h1(3) have "LazyHnsw_get_items (Some ids) h1 = Inr data"
    by (simp add: map_of_zip_all [OF assms])
  with h1 show "\<exists>h1. LazyHnsw_add_items data (Some ids) h = Returns () h1
           \<and> LazyHnsw_get_current_count h1 = int (length data)
           \<and> LazyHnsw_get_items (Some ids) h1 = Inr data
           \<and> (\<forall>req. set req \<subseteq> set ids \<longrightarrow>
                 LazyHnsw_get_items (Some req) h1
                   = Inr (map (\<lambda>i. the (map_of (zip ids data) i)) req))"
    by blast
next
  assume a: "RedisIndex_add_items tobytes batch (Some ids) partition_arg r = Returns u r'
    \<and> length ids = length batch"
  then have ret: "RedisIndex_add_items tobytes batch (Some ids) partition_arg r = Returns u r'"
    and l: "length ids = length batch"
    by simp_all
  from RedisIndex_round_trip [OF assms(1) l ret]
  show "RedisIndex_get_items (Some ids) r'
    = Inr (map (\<lambda>datum. Some (projr (tobytes datum))) batch)" .
  show "RedisIndex_get_current_count r' = Inl NotImplementedError"
    by (simp add: RedisIndex_get_current_count_def)
next
  show "FaissIndexFactory_add_items [] [] f = Raises ValueError f"
    by (simp add: FaissIndexFactory_add_items_def np_array_float32_def np_ragged_def
        np_array_int64_def faiss_add_with_ids_def)
next
  assume "\<not> np_ragged data \<and> (\<exists>i\<in>set ids. i < - (2 ^ 63) \<or> 2 ^ 63 \<le> i)"
  then show "FaissIndexFactory_add_items data ids f = Raises OverflowError f"
    by (simp add: FaissIndexFactory_add_items_def np_array_float32_def np_array_int64_def
        list_ex_iff)
next
  assume "hn_dim h \<noteq> 0"
  then show "\<exists>h'. LazyHnsw_add_items [] ids_arg h = Raises RuntimeError h'
      \<and> element_count h' = element_count h"
    by (rule LazyHnsw_add_items_empty_batch)
next
  assume a: "(\<not> hn_index_inited h \<or> max_elements h \<noteq> 0) \<and> \<not> np_ragged data \<and> data \<noteq> []
    \<and> length (hd data) = hn_dim h \<and> (\<exists>i\<in>set ids. i < 0 \<or> 2 ^ 64 \<le> i)"
  then have "\<not> np_ragged data" "data \<noteq> []" "length (hd data) = hn_dim h"
    "\<exists>i\<in>set ids. i < 0 \<or> 2 ^ 64 \<le> i" "\<not> hn_index_inited h \<or> max_elements h \<noteq> 0"
    by simp_all
  then show "\<exists>h'. LazyHnsw_add_items data (Some ids) h = Raises OverflowError h'
      \<and> element_count h' = element_count h"
    by (rule LazyHnsw_add_items_bad_label)
qed

theorem insertion_round_trip_witness:
  "distinct [1, 2 :: int]
   \<and> length [1, 2 :: int] = length [[0, 0, 0, 0], [1, 1, 1, 1 :: int]]
   \<and> (\<exists>s1. SciKitNearestNeighbors_add_items [[0, 0, 0, 0], [1, 1, 1, 1 :: int]] (Some [1, 2])
              (fst (SciKitNearestNeighbors_init ''l2'' 4)) = Returns () s1
         \<and> SciKitNearestNeighbors_get_current_count s1 = 2
         \<and> SciKitNearestNeighbors_get_items (Some [2, 1]) s1
             = Inr [[1, 1, 1, 1], [0, 0, 0, 0]])
   \<and> fst (FaissIndexFactory_init example_builds ''l2'' 4 ''Flat'') = Inr example_faiss
   \<and> fi_is_trained (fa_index example_faiss)
   \<and> (\<exists>f1. FaissIndexFactory_add_items [[0, 0, 0, 0], [1, 1, 1, 1]] [1, 2] example_faiss
              = Returns () f1
         \<and> FaissIndexFactory_get_current_count f1 = 2
         \<and> FaissIndexFactory_get_items [2, 1] f1 = Inr [[1, 1, 1, 1], [0, 0, 0, 0]])
   \<and> LazyHnsw_new ''l2'' 4 None None None = Inr example_hnsw
   \<and> (\<exists>h1. LazyHnsw_add_items [[0, 0, 0, 0], [1, 1, 1, 1]] (Some [1, 2]) example_hnsw
              = Returns () h1
         \<and> LazyHnsw_get_current_count h1 = 2
         \<and> LazyHnsw_get_items (Some [2, 1]) h1 = Inr [[1, 1, 1, 1], [0, 0, 0, 0]])
   \<and> RedisIndex_add_items example_tobytes [Some [0, 0, 0, 0], Some [1, 1, 1, 1]] (Some [1, 2])
       None example_redis
     = Returns () (state_of (RedisIndex_add_items example_tobytes
         [Some [0, 0, 0, 0], Some [1, 1, 1, 1]] (Some [1, 2]) None example_redis))
   \<and> RedisIndex_get_items (Some [1, 2]) (state_of (RedisIndex_add_items example_tobytes
         [Some [0, 0, 0, 0], Some [1, 1, 1, 1]] (Some [1, 2]) None example_redis))
     = Inr [Some [0, 0, 0, 0], Some [1, 1, 1, 1]]
   \<and> FaissIndexFactory_add_items [[0, 0, 0, 0]] [2 ^ 63] example_faiss
     = Raises OverflowError example_faiss
   \<and> hn_dim example_hnsw \<noteq> 0
   \<and> (\<exists>h'. LazyHnsw_add_items [] (Some []) example_hnsw = Raises RuntimeError h'
         \<and> element_count h' = element_count example_hnsw)
   \<and> (\<exists>h'. LazyHnsw_add_items [[0, 0, 0, 0]] (Some [- 1]) example_hnsw
              = Raises OverflowError h'
         \<and> element_count h' = element_count example_hnsw)"
proof -
  let ?data = "[[0, 0, 0, 0], [1, 1, 1, 1 :: int]]"
  let ?call = "RedisIndex_add_items example_tobytes [Some [0, 0, 0, 0], Some [1, 1, 1, 1]]
    (Some [1, 2]) None example_redis"
  have g: "?call = Returns () (state_of ?call)"
    by (simp add: RedisIndex_add_items_eq Let_def encodable_def example_tobytes_def
        permitted_def item_hset_def example_redis_def)
  then have gl: "?call = Returns () (state_of ?call)
    \<and> length [1, 2 :: int] = length [Some [0, 0, 0, 0], Some [1, 1, 1, 1 :: int]]"
    by simp
  let ?want = "map (\<lambda>i. the (map_of (zip [1, 2 :: int] ?data) i)) [2, 1]"
  have d: "distinct [1, 2 :: int]" by simp
  have l: "length [1, 2 :: int] = length ?data" by simp
  have w: "?want = [[1, 1, 1, 1], [0, 0, 0, 0]]" by simp
  have sub: "set [2, 1 :: int] \<subseteq> set [1, 2]" by simp
  have ne: "[2, 1 :: int] \<noteq> [] \<and> set [2, 1 :: int] \<subseteq> set [1, 2]" by simp
  have fc: "fst (FaissIndexFactory_init example_builds ''l2'' 4 ''Flat'') = Inr example_faiss"
    by (simp add: FaissIndexFactory_init_def example_faiss_def faiss_IndexIDMap2_def
        faiss_index_factory_def example_builds_def)
  have ft: "fi_is_trained (fa_index example_faiss)"
    by (simp add: example_faiss_def)
  have rg: "\<forall>i\<in>set [1, 2 :: int]. 0 \<le> i \<and> i < 2 ^ 63"
    by simp
  have dn: "?data \<noteq> [] \<and> (\<forall>v\<in>set ?data. length v = 4)
    \<and> (\<forall>i\<in>set [1, 2 :: int]. 0 \<le> i \<and> i < 2 ^ 63)"
    by simp
  have fl: "''Flat'' \<in> {'''', ''Flat''}"
    by simp
  have fa: "''Flat'' \<in> {'''', ''Flat''}
    \<and> fst (FaissIndexFactory_init example_builds ''l2'' 4 ''Flat'') = Inr example_faiss
    \<and> fi_is_trained (fa_index example_faiss)
    \<and> ?data \<noteq> [] \<and> (\<forall>v\<in>set ?data. length v = 4)
    \<and> (\<forall>i\<in>set [1, 2 :: int]. 0 \<le> i \<and> i < 2 ^ 63)"
    by (rule conjI [OF fl conjI [OF fc conjI [OF ft dn]]])
  have sp: "''l2'' \<in> {''l2'', ''ip''}"
    by simp
  have hn: "''l2'' \<in> {''l2'', ''ip''}
    \<and> LazyHnsw_new ''l2'' 4 None None None = Inr example_hnsw
    \<and> ?data \<noteq> [] \<and> (\<forall>v\<in>set ?data. length v = 4)
    \<and> (\<forall>i\<in>set [1, 2 :: int]. 0 \<le> i \<and> i < 2 ^ 63)"
    by (rule conjI [OF sp conjI [OF example_hnsw_constructed dn]])
  note t = insertion_round_trip [OF d l, where space = "''l2''" and dim = 4
      and builds = example_builds
      and index_factory = "''Flat''" and f = example_faiss and h = example_hnsw
      and max_elements_arg = None and ef_construction_arg = None and M_arg = None
      and tobytes = example_tobytes and batch = "[Some [0, 0, 0, 0], Some [1, 1, 1, 1]]"
      and partition_arg = None and r = example_redis and u = "()" and r' = "state_of ?call"]
  from t [THEN conjunct2, THEN conjunct2, THEN conjunct2, THEN conjunct1, THEN mp, OF gl,
      THEN conjunct1]
  have D: "RedisIndex_get_items (Some [1, 2]) (state_of ?call)
    = Inr [Some [0, 0, 0, 0], Some [1, 1, 1, 1]]"
    by (simp add: example_tobytes_def)
  from t [THEN conjunct1] obtain s1 where s1:
    "SciKitNearestNeighbors_add_items ?data (Some [1, 2])
       (fst (SciKitNearestNeighbors_init ''l2'' 4)) = Returns () s1"
    "SciKitNearestNeighbors_get_current_count s1 = int (length ?data)"
    "\<forall>req. set req \<subseteq> set [1, 2] \<longrightarrow>
       SciKitNearestNeighbors_get_items (Some req) s1
         = Inr (map (\<lambda>i. the (map_of (zip [1, 2] ?data) i)) req)"
    by blast
  from s1(3) sub have "SciKitNearestNeighbors_get_items (Some [2, 1]) s1 = Inr ?want"
    by blast
  with s1(1,2) have A: "\<exists>s1. SciKitNearestNeighbors_add_items ?data (Some [1, 2])
              (fst (SciKitNearestNeighbors_init ''l2'' 4)) = Returns () s1
         \<and> SciKitNearestNeighbors_get_current_count s1 = 2
         \<and> SciKitNearestNeighbors_get_items (Some [2, 1]) s1
             = Inr [[1, 1, 1, 1], [0, 0, 0, 0]]"
    unfolding w by auto
  from t [THEN conjunct2, THEN conjunct1, THEN mp, OF fa] obtain f1 where f1:
    "FaissIndexFactory_add_items ?data [1, 2] example_faiss = Returns () f1"
    "FaissIndexFactory_get_current_count f1 = int (length ?data)"
    "\<forall>req. req \<noteq> [] \<and> set req \<subseteq> set [1, 2] \<longrightarrow>
       FaissIndexFactory_get_items req f1
         = Inr (map (\<lambda>i. the (map_of (zip [1, 2] ?data) i)) req)"
    by blast
  from f1(3) ne have "FaissIndexFactory_get_items [2, 1] f1 = Inr ?want"
    by blast
  with f1(1,2) have B: "\<exists>f1. FaissIndexFactory_add_items ?data [1, 2] example_faiss
              = Returns () f1
         \<and> FaissIndexFactory_get_current_count f1 = 2
         \<and> FaissIndexFactory_get_items [2, 1] f1 = Inr [[1, 1, 1, 1], [0, 0, 0, 0]]"
    unfolding w by auto
  from t [THEN conjunct2, THEN conjunct2, THEN conjunct1, THEN mp, OF hn] obtain h1 where h1:
    "LazyHnsw_add_items ?data (Some [1, 2]) example_hnsw = Returns () h1"
    "LazyHnsw_get_current_count h1 = int (length ?data)"
    "\<forall>req. set req \<subseteq> set [1, 2] \<longrightarrow>
       LazyHnsw_get_items (Some req) h1
         = Inr (map (\<lambda>i. the (map_of (zip [1, 2] ?data) i)) req)"
    by blast
  from h1(3) sub have "LazyHnsw_get_items (Some [2, 1]) h1 = Inr ?want"
    by blast
  with h1(1,2) have C: "\<exists>h1. LazyHnsw_add_items ?data (Some [1, 2]) example_hnsw
              = Returns () h1
         \<and> LazyHnsw_get_current_count h1 = 2
         \<and> LazyHnsw_get_items (Some [2, 1]) h1 = Inr [[1, 1, 1, 1], [0, 0, 0, 0]]"
    unfolding w by auto
  have d1: "distinct [2 ^ 63 :: int]" by simp
  have l1: "length [2 ^ 63 :: int] = length [[0, 0, 0, 0 :: int]]" by simp
  have big: "\<not> np_ragged [[0, 0, 0, 0 :: int]]
    \<and> (\<exists>i\<in>set [2 ^ 63 :: int]. i < - (2 ^ 63) \<or> 2 ^ 63 \<le> i)"
    by (simp add: np_ragged_def)
  note E = insertion_round_trip [OF d1 l1, where f = example_faiss,
      THEN conjunct2, THEN conjunct2, THEN conjunct2, THEN conjunct2, THEN conjunct2,
      THEN conjunct1, THEN mp, OF big]
  have hd: "hn_dim example_hnsw \<noteq> 0"
    by (simp add: example_hnsw_def)
  note F = insertion_round_trip [OF d l, where h = example_hnsw and ids_arg = "Some []",
      THEN conjunct2, THEN conjunct2, THEN conjunct2, THEN conjunct2, THEN conjunct2,
      THEN conjunct2, THEN conjunct1, THEN mp, OF hd]
  have d2: "distinct [- 1 :: int]" by simp
  have l2: "length [- 1 :: int] = length [[0, 0, 0, 0 :: int]]" by simp
  have neg: "(\<not> hn_index_inited example_hnsw \<or> max_elements example_hnsw \<noteq> 0)
    \<and> \<not> np_ragged [[0, 0, 0, 0 :: int]] \<and> [[0, 0, 0, 0 :: int]] \<noteq> []
    \<and> length (hd [[0, 0, 0, 0 :: int]]) = hn_dim example_hnsw
    \<and> (\<exists>i\<in>set [- 1 :: int]. i < 0 \<or> 2 ^ 64 \<le> i)"
    by (simp add: np_ragged_def example_hnsw_def)
  note G = insertion_round_trip [OF d2 l2, where h = example_hnsw,
      THEN conjunct2, THEN conjunct2, THEN conjunct2, THEN conjunct2, THEN conjunct2,
      THEN conjunct2, THEN conjunct2, THEN mp, OF neg]
  show ?thesis
    by (intro conjI)
      (rule d, rule l, rule A, rule fc, rule ft, rule B, rule example_hnsw_constructed,
        rule C, rule g, rule D, rule E, rule hd, rule F, rule G)
qed

subsection \<open>Case of backend names\<close>

text \<open>
  Claim C7, as the specification states it: resolving a name gives the same adapter as
  resolving its lower-cased form. The source compares the name as given, so
  \<^verbatim>\<open>"HNSW"\<close> is an unknown name although \<^verbatim>\<open>"hnsw"\<close> is an alias.
\<close>

theorem parse_server_name_case_counterexample:
  "parse_server_name {''sklearn'', ''hnswlib''} ''HNSW'' = SciKitNearestNeighbors
   \<and> lower ''HNSW'' = ''hnsw''
   \<and> parse_server_name {''sklearn'', ''hnswlib''} (lower ''HNSW'') = LazyHnsw
   \<and> parse_server_name {''sklearn'', ''hnswlib''} ''HNSW''
        \<noteq> parse_server_name {''sklearn'', ''hnswlib''} (lower ''HNSW'')"
  by (simp add: parse_server_name_def lower_def lower_char_def)

text \<open>
  Claim C7, amended: resolution is case-sensitive. Only a name written exactly as one of
  the lower-case aliases can select an engine; every name that differs from its
  lower-cased form resolves to the reference adapter, whatever its lower-cased form
  resolves to.
\<close>

theorem parse_server_name_case_sensitive:
  assumes "lower sname \<noteq> sname"
  shows "parse_server_name available_engines sname = SciKitNearestNeighbors"
proof -
  have "sname \<notin> set [''hnswlib'', ''hnsw'', ''faiss'', ''flatfaiss'', ''redis'']"
    using assms alias_is_lower_case by blast
  then show ?thesis
    by (simp add: parse_server_name_def)
qed

theorem parse_server_name_case_sensitive_witness:
  "lower ''FAISS'' \<noteq> ''FAISS''
   \<and> parse_server_name {''sklearn'', ''hnswlib'', ''faiss''} ''FAISS'' = SciKitNearestNeighbors"
proof -
  have ne: "lower ''FAISS'' \<noteq> ''FAISS''"
    by (simp add: lower_def lower_char_def)
  show ?thesis
    by (intro conjI) (rule ne, rule parse_server_name_case_sensitive [OF ne])
qed

subsection \<open>Capacity over sequences of calls\<close>

text \<open>
  Claim C8, as the specification states it: over every sequence of calls from the
  uninitialised state, \<^verbatim>\<open>get_max_elements()\<close> never decreases. \<^verbatim>\<open>resize_index(size)\<close> passes
  any \<open>size\<close> to the engine, which accepts every size that is not 0 and not below the
  number of stored elements: after one insertion into a fresh index of declared capacity 1024,
  \<^verbatim>\<open>resize_index(10)\<close> brings the capacity from 1024 down to 10.
\<close>

theorem capacity_shrinks_counterexample:
  "LazyHnsw_capacities [Op_add_items [[0, 0, 0, 0]] (Some [1]), Op_resize_index 10] example_hnsw
     = [0, 1024, 10]
   \<and> \<not> sorted (LazyHnsw_capacities
          [Op_add_items [[0, 0, 0, 0]] (Some [1]), Op_resize_index 10] example_hnsw)"
  by (simp add: example_hnsw_def LazyHnsw_get_max_elements_def LazyHnsw_add_items_def
      LazyHnsw_init_def Index_init_index_def max_elements_def element_count_def
      Index_add_items_def LazyHnsw_resize_index_def Index_resize_index_def np_ragged_def
      size_t_labels_def)

text \<open>
  Claim C8, amended. Over every sequence of calls of the methods that \<^verbatim>\<open>LazyHnsw\<close> defines
  (\<^verbatim>\<open>init\<close>, \<^verbatim>\<open>add_items\<close>, \<^verbatim>\<open>add\<close>, \<^verbatim>\<open>get_items\<close>, \<^verbatim>\<open>knn_query\<close>, \<^verbatim>\<open>search\<close>,
  \<^verbatim>\<open>resize_index\<close>, \<^verbatim>\<open>set_ef\<close>, \<^verbatim>\<open>get_max_elements\<close>, \<^verbatim>\<open>get_current_count\<close>), from any
  state, in which no \<^verbatim>\<open>resize_index(size)\<close> asks for a size below the capacity the index
  then has, \<^verbatim>\<open>get_max_elements()\<close> never decreases. The methods that \<^verbatim>\<open>LazyHnsw\<close> inherits
  from the engine without overriding them, among them \<^verbatim>\<open>load_index\<close>, which replaces the
  index and its capacity by those of a file, are not among these calls.

  \<^verbatim>\<open>resize_index(size)\<close> itself does not compare \<open>size\<close> with the capacity:
  \<^item> on an index whose capacity is not 0 it raises \<^verbatim>\<open>RuntimeError\<close> and leaves the index as
    it is when \<open>size\<close> is 0 or below the number of stored elements, and otherwise sets the
    capacity to exactly \<open>size\<close>, which may be less than before;
  \<^item> on an index whose engine is not initialised it allocates \<open>size\<close>, or the declared
    capacity when \<open>size\<close> is 0.
\<close>

theorem capacity_monotone_without_shrinking_resize:
  "(no_shrinking_resize cs h \<longrightarrow> sorted (LazyHnsw_capacities cs h))
   \<and> (max_elements h \<noteq> 0 \<longrightarrow>
        LazyHnsw_resize_index n h
          = (if n = 0 \<or> n < element_count h then Raises RuntimeError h
             else Returns () (h\<lparr>hn_capacity := n\<rparr>)))
   \<and> (max_elements h \<noteq> 0 \<and> n \<noteq> 0 \<and> element_count h \<le> n \<longrightarrow>
        LazyHnsw_get_max_elements (LazyHnsw_call (Op_resize_index n) h) = int n)
   \<and> (\<not> hn_index_inited h \<longrightarrow>
        LazyHnsw_get_max_elements (LazyHnsw_call (Op_resize_index n) h)
          = int (if n = 0 then init_max_elements h else n))"
proof (intro conjI impI)
  assume "no_shrinking_resize cs h"
  then show "sorted (LazyHnsw_capacities cs h)"
    by (rule LazyHnsw_capacities_sorted)
next
  assume "max_elements h \<noteq> 0"
  then have "hn_index_inited h" "max_elements h \<noteq> 0"
    by (simp_all add: max_elements_def split: if_splits)
  then show "LazyHnsw_resize_index n h
          = (if n = 0 \<or> n < element_count h then Raises RuntimeError h
             else Returns () (h\<lparr>hn_capacity := n\<rparr>))"
    by (auto simp: LazyHnsw_resize_index_def Index_resize_index_def element_count_def)
next
  assume a: "max_elements h \<noteq> 0 \<and> n \<noteq> 0 \<and> element_count h \<le> n"
  then have "hn_index_inited h"
    by (simp add: max_elements_def split: if_splits)
  with a show "LazyHnsw_get_max_elements (LazyHnsw_call (Op_resize_index n) h) = int n"
    by (simp add: LazyHnsw_get_max_elements_def LazyHnsw_resize_index_def
        Index_resize_index_def max_elements_def element_count_def)
next
  assume "\<not> hn_index_inited h"
  then show "LazyHnsw_get_max_elements (LazyHnsw_call (Op_resize_index n) h)
          = int (if n = 0 then init_max_elements h else n)"
    by (simp add: LazyHnsw_get_max_elements_def LazyHnsw_resize_index_def LazyHnsw_init_def
        Index_init_index_def max_elements_def)
qed

theorem capacity_monotone_without_shrinking_resize_witness:
  "no_shrinking_resize
       [Op_add_items [[0, 0, 0, 0]] (Some [1]), Op_search [[0, 0, 0, 0]] 1, Op_resize_index 2000]
       example_hnsw
   \<and> sorted (LazyHnsw_capacities
       [Op_add_items [[0, 0, 0, 0]] (Some [1]), Op_search [[0, 0, 0, 0]] 1, Op_resize_index 2000]
       example_hnsw)
   \<and> LazyHnsw_capacities
       [Op_add_items [[0, 0, 0, 0]] (Some [1]), Op_search [[0, 0, 0, 0]] 1, Op_resize_index 2000]
       example_hnsw = [0, 1024, 1024, 2000]
   \<and> max_elements example_hnsw_two_items \<noteq> 0
   \<and> element_count example_hnsw_two_items \<le> 5
   \<and> LazyHnsw_get_max_elements (LazyHnsw_call (Op_resize_index 5) example_hnsw_two_items) = 5
   \<and> LazyHnsw_resize_index 0 example_hnsw_two_items
       = Raises RuntimeError example_hnsw_two_items
   \<and> LazyHnsw_resize_index 1 example_hnsw_two_items
       = Raises RuntimeError example_hnsw_two_items
   \<and> \<not> hn_index_inited example_hnsw
   \<and> LazyHnsw_get_max_elements (LazyHnsw_call (Op_resize_index 0) example_hnsw) = 1024"
proof -
  let ?cs = "[Op_add_items [[0, 0, 0, 0]] (Some [1]), Op_search [[0, 0, 0, 0]] 1,
    Op_resize_index 2000]"
  have n: "no_shrinking_resize ?cs example_hnsw"
    by (simp add: example_hnsw_def LazyHnsw_add_items_def LazyHnsw_init_def
        Index_init_index_def max_elements_def element_count_def Index_add_items_def
        np_ragged_def size_t_labels_def)
  have v: "LazyHnsw_capacities ?cs example_hnsw = [0, 1024, 1024, 2000]"
    by (simp add: example_hnsw_def LazyHnsw_get_max_elements_def LazyHnsw_add_items_def
        LazyHnsw_init_def Index_init_index_def max_elements_def element_count_def
        Index_add_items_def LazyHnsw_resize_index_def Index_resize_index_def np_ragged_def
        size_t_labels_def)
  have a: "max_elements example_hnsw_two_items \<noteq> 0"
    by (simp add: example_hnsw_two_items_def max_elements_def)
  have b: "element_count example_hnsw_two_items \<le> 5"
    by (simp add: example_hnsw_two_items_def element_count_def)
  have ab: "max_elements example_hnsw_two_items \<noteq> 0 \<and> (5 :: nat) \<noteq> 0
    \<and> element_count example_hnsw_two_items \<le> 5"
    using a b by simp
  from capacity_monotone_without_shrinking_resize
    [where h = example_hnsw_two_items and n = 0, THEN conjunct2, THEN conjunct1, THEN mp, OF a]
  have r0: "LazyHnsw_resize_index 0 example_hnsw_two_items
    = Raises RuntimeError example_hnsw_two_items"
    by simp
  from capacity_monotone_without_shrinking_resize
    [where h = example_hnsw_two_items and n = 1, THEN conjunct2, THEN conjunct1, THEN mp, OF a]
  have r1: "LazyHnsw_resize_index 1 example_hnsw_two_items
    = Raises RuntimeError example_hnsw_two_items"
    by (simp add: example_hnsw_two_items_def element_count_def)
  have un: "\<not> hn_index_inited example_hnsw"
    by (simp add: example_hnsw_def)
  from capacity_monotone_without_shrinking_resize
    [where h = example_hnsw and n = 0, THEN conjunct2, THEN conjunct2, THEN conjunct2,
      THEN mp, OF un]
  have r2: "LazyHnsw_get_max_elements (LazyHnsw_call (Op_resize_index 0) example_hnsw) = 1024"
    by (simp add: example_hnsw_def)
  note s = capacity_monotone_without_shrinking_resize
    [where cs = ?cs and h = example_hnsw, THEN conjunct1, THEN mp, OF n]
  from capacity_monotone_without_shrinking_resize
    [where h = example_hnsw_two_items and n = 5, THEN conjunct2, THEN conjunct2,
      THEN conjunct1, THEN mp, OF ab]
  have r: "LazyHnsw_get_max_elements (LazyHnsw_call (Op_resize_index 5) example_hnsw_two_items)
    = 5"
    by simp
  show ?thesis
    by (intro conjI)
      (rule n, rule s, rule v, rule a, rule b, rule r, rule r0, rule r1, rule un, rule r2)
qed

subsection \<open>Vectors of the wrong length\<close>




subsection \<open>RedisIndex.add_items inside a write scope\<close>

text \<open>
  Claim C10. \<^verbatim>\<open>add_items\<close> creates a fresh pipeline whatever the pipeline handle holds, so
  inside an open write scope it behaves as outside of one; when it returns the writes are
  already on the server and the pipeline handle is \<^verbatim>\<open>None\<close>; the \<^verbatim>\<open>__exit__\<close> that follows
  raises \<^verbatim>\<open>AttributeError\<close> and changes nothing.
\<close>

theorem add_items_inside_write_scope:
  "RedisIndex_add_items tobytes data ids partition_arg (RedisIndex_enter r)
     = RedisIndex_add_items tobytes data ids partition_arg r
   \<and> (RedisIndex_add_items tobytes data ids partition_arg (RedisIndex_enter r) = Returns u r'
        \<longrightarrow> rd_pipe r' = None
          \<and> (\<exists>id_list. ids = Some id_list
                \<and> rd_redis r' =
                    fold server_hset
                      (map (\<lambda>(datum, i). (''item:'' @ str_int i,
                              \<lparr>h_embedding = projr (tobytes datum), h_item_id = str_int i,
                               h_partition =
                                 (case partition_arg of None \<Rightarrow> '''' | Some s \<Rightarrow> s)\<rparr>))
                         (zip data id_list))
                      (rd_redis r)
                \<and> list_all (\<lambda>x. hashes (rd_redis r') (''item:'' @ str_int (snd x)) \<noteq> None)
                      (zip data id_list))
          \<and> RedisIndex_exit r' = Raises AttributeError r')"
proof (intro conjI impI)
  show same: "RedisIndex_add_items tobytes data ids partition_arg (RedisIndex_enter r)
     = RedisIndex_add_items tobytes data ids partition_arg r"
    by (simp add: RedisIndex_add_items_def RedisIndex_enter_def)
  assume "RedisIndex_add_items tobytes data ids partition_arg (RedisIndex_enter r) = Returns u r'"
  with same have a: "RedisIndex_add_items tobytes data ids partition_arg r = Returns u r'"
    by simp
  then obtain id_list where ids: "ids = Some id_list"
    by (cases ids) (simp_all add: RedisIndex_add_items_def Let_def)
  let ?part = "case partition_arg of None \<Rightarrow> '''' | Some s \<Rightarrow> s"
  let ?cmds = "map (\<lambda>(datum, i). (''item:'' @ str_int i,
      \<lparr>h_embedding = projr (tobytes datum), h_item_id = str_int i, h_partition = ?part\<rparr>))
    (zip data id_list)"
  from a ids
  have "RedisIndex_add_items tobytes data (Some id_list) partition_arg r = Returns u r'"
    by simp
  note r' = RedisIndex_add_items_Returns(3) [OF this]
  from r' show none: "rd_pipe r' = None"
    by simp
  from r' have store: "rd_redis r' = fold server_hset ?cmds (rd_redis r)"
    by (simp add: item_hset_eq)
  have present: "list_all (\<lambda>x. hashes (rd_redis r') (''item:'' @ str_int (snd x)) \<noteq> None)
      (zip data id_list)"
    unfolding list_all_iff
  proof
    fix x assume x: "x \<in> set (zip data id_list)"
    obtain datum i where di: "x = (datum, i)" by (cases x)
    from x di have "(''item:'' @ str_int i) \<in> set (map fst (rev ?cmds))"
      by force
    from map_of_known [OF this] show "hashes (rd_redis r') (''item:'' @ str_int (snd x)) \<noteq> None"
      unfolding store hashes_fold_server_hset using di by auto
  qed
  from ids store present
  show "\<exists>id_list. ids = Some id_list
      \<and> rd_redis r' = fold server_hset
          (map (\<lambda>(datum, i). (''item:'' @ str_int i,
                  \<lparr>h_embedding = projr (tobytes datum), h_item_id = str_int i,
                   h_partition = ?part\<rparr>))
             (zip data id_list))
          (rd_redis r)
      \<and> list_all (\<lambda>x. hashes (rd_redis r') (''item:'' @ str_int (snd x)) \<noteq> None)
          (zip data id_list)"
    by blast
  from none show "RedisIndex_exit r' = Raises AttributeError r'"
    by (simp add: RedisIndex_exit_def)
qed

theorem add_items_inside_write_scope_witness:
  "RedisIndex_add_items example_tobytes [Some [0, 0, 0, 0], Some [1, 1, 1, 1]] (Some [1, 2])
       None (RedisIndex_enter example_redis)
     = Returns () (state_of (RedisIndex_add_items example_tobytes
         [Some [0, 0, 0, 0], Some [1, 1, 1, 1]] (Some [1, 2]) None
         (RedisIndex_enter example_redis)))
   \<and> rd_pipe (state_of (RedisIndex_add_items example_tobytes
         [Some [0, 0, 0, 0], Some [1, 1, 1, 1]] (Some [1, 2]) None
         (RedisIndex_enter example_redis))) = None
   \<and> RedisIndex_exit (state_of (RedisIndex_add_items example_tobytes
         [Some [0, 0, 0, 0], Some [1, 1, 1, 1]] (Some [1, 2]) None
         (RedisIndex_enter example_redis)))
     = Raises AttributeError (state_of (RedisIndex_add_items example_tobytes
         [Some [0, 0, 0, 0], Some [1, 1, 1, 1]] (Some [1, 2]) None
         (RedisIndex_enter example_redis)))"
proof -
  let ?call = "RedisIndex_add_items example_tobytes [Some [0, 0, 0, 0], Some [1, 1, 1, 1]]
    (Some [1, 2]) None (RedisIndex_enter example_redis)"
  have g: "?call = Returns () (state_of ?call)"
    by (simp add: RedisIndex_add_items_eq Let_def encodable_def example_tobytes_def
        permitted_def item_hset_def example_redis_def RedisIndex_enter_def)
  note t = add_items_inside_write_scope [where tobytes = example_tobytes
      and data = "[Some [0, 0, 0, 0], Some [1, 1, 1, 1]]" and ids = "Some [1, 2]"
      and partition_arg = None and r = example_redis and u = "()" and r' = "state_of ?call",
      THEN conjunct2, THEN mp, OF g]
  show ?thesis
    by (intro conjI) (rule g, rule t [THEN conjunct1], rule t [THEN conjunct2, THEN conjunct2])
qed

end
